theory Spec2Isabelle
  imports
    Main
    "HOL-Library.Word"
    "HOL-Library.Char_ord"
    "HOL-Library.List_Lexorder"
    "HOL-Library.Multiset"
    "HOL-Library.Sublist"
begin

section \<open>Errors (github.com/juju/errors)\<close>

text \<open>
  An error value carries its kind and the format string with the arguments it was built
  from (the text is never formatted here). \<open>errors.Annotatef\<close> wraps an error and
  keeps its cause; \<open>errors.Trace\<close> records only a source location, so it is the
  identity on this model.
\<close>

datatype error =
    ErrNotFound string "string list"
  | ErrNotSupported string "string list"
  | ErrNotValid string "string list"
  | ErrErrorf string "string list"
  | ErrAnnotate string "string list" error

fun Cause :: "error \<Rightarrow> error" where
  "Cause (ErrAnnotate f args e) = Cause e"
| "Cause e = e"

fun IsNotFound :: "error \<Rightarrow> bool" where
  "IsNotFound e = (case Cause e of ErrNotFound f args \<Rightarrow> True | _ \<Rightarrow> False)"


fun IsNotValid :: "error \<Rightarrow> bool" where
  "IsNotValid e = (case Cause e of ErrNotValid f args \<Rightarrow> True | _ \<Rightarrow> False)"

definition Trace :: "error \<Rightarrow> error" where
  "Trace e = e"

section \<open>Data model\<close>

text \<open>
  \<open>map[string]string\<close> (labels, annotations, node selectors) is a partial map; a nil
  map and an empty map read the same, and both are \<open>Map.empty\<close>.
\<close>

type_synonym strmap = "string \<rightharpoonup> string"

text \<open>
  \<open>caas.DeploymentType\<close> is a string type with three named constants; every other
  string value is \<open>DeploymentOther\<close>.
\<close>

datatype DeploymentType =
    DeploymentStateful
  | DeploymentStateless
  | DeploymentDaemon
  | DeploymentOther string

text \<open>
  The fields of \<open>app\<close> that are data. Its collaborators (\<open>client\<close>,
  \<open>randomPrefix\<close>, \<open>newApplier\<close>) are the record \<open>client\<close> below.
\<close>

record app =
  name :: string
  namespace :: string
  modelUUID :: string
  modelName :: string
  legacyLabels :: bool
  deploymentType :: DeploymentType

record ObjectMeta =
  Name :: string
  Namespace :: string
  Labels :: strmap
  Annotations :: strmap
  DeletionTimestamp :: "nat option"

definition ObjectMeta0 :: ObjectMeta where
  "ObjectMeta0 = \<lparr>Name = [], Namespace = [], Labels = Map.empty, Annotations = Map.empty,
     DeletionTimestamp = None\<rparr>"

record Secret =
  secMeta :: ObjectMeta
  Data :: strmap

record ServicePort =
  spName :: string
  spPort :: "32 word"
  spTargetPort :: "32 word"
  spProtocol :: string

record ServiceSpec =
  svcSelector :: strmap
  svcType :: string
  ClusterIP :: string
  PublishNotReadyAddresses :: bool
  svcPorts :: "ServicePort list"

record Service =
  svcMeta :: ObjectMeta
  svcSpec :: ServiceSpec

definition ServiceTypeClusterIP :: string where
  "ServiceTypeClusterIP = ''ClusterIP''"

record VolumeMount =
  vmName :: string
  vmReadOnly :: bool
  vmMountPath :: string
  vmSubPath :: string

datatype VolumeSource =
    EmptyDir
  | PersistentVolumeClaimSource string bool
  | OtherVolumeSource string

record Volume =
  volName :: string
  volSource :: VolumeSource

datatype Quantity =
    MilliQuantity "64 word"
  | BinaryQuantity "64 word"
  | ParsedQuantity string

record EnvVar =
  envName :: string
  envValue :: string
  envFieldPath :: "string option"

record Probe =
  HTTPGetPath :: string
  HTTPGetPort :: string
  InitialDelaySeconds :: "32 word"
  PeriodSeconds :: "32 word"
  SuccessThreshold :: "32 word"
  FailureThreshold :: "32 word"

record ContainerPort =
  cpName :: string
  cpContainerPort :: "32 word"
  cpProtocol :: string

record Container =
  cName :: string
  ImagePullPolicy :: string
  Image :: string
  WorkingDir :: string
  Command :: "string list"
  Args :: "string list"
  Env :: "EnvVar list"
  EnvFromSecret :: "string list"
  RunAsUser :: "64 word option"
  RunAsGroup :: "64 word option"
  LivenessProbe :: "Probe option"
  ReadinessProbe :: "Probe option"
  StartupProbe :: "Probe option"
  VolumeMounts :: "VolumeMount list"
  Requests :: "string \<rightharpoonup> Quantity"
  Ports :: "ContainerPort list"

record PodSpec =
  AutomountServiceAccountToken :: "bool option"
  NodeSelector :: strmap
  InitContainers :: "Container list"
  Containers :: "Container list"
  Volumes :: "Volume list"

record PodTemplateSpec =
  tplLabels :: strmap
  tplAnnotations :: strmap
  tplSpec :: PodSpec

record PersistentVolumeClaimSpec =
  StorageClassName :: "string option"
  pvcRequest :: Quantity
  AccessModes :: "string list"

record PersistentVolumeClaim =
  pvcMeta :: ObjectMeta
  pvcSpec :: PersistentVolumeClaimSpec

record StorageClass =
  scMeta :: ObjectMeta
  Provisioner :: string
  Parameters :: strmap
  ReclaimPolicy :: string

record StatefulSetSpec =
  ssReplicas :: "32 word option"
  ssSelector :: strmap
  ssTemplate :: PodTemplateSpec
  PodManagementPolicy :: string
  VolumeClaimTemplates :: "PersistentVolumeClaim list"

record StatefulSet =
  ssMeta :: ObjectMeta
  ssSpec :: StatefulSetSpec

record DeploymentSpec =
  dReplicas :: "32 word option"
  dSelector :: strmap
  dTemplate :: PodTemplateSpec

record Deployment =
  dMeta :: ObjectMeta
  dSpec :: DeploymentSpec

record DaemonSetSpec =
  dsSelector :: strmap
  dsTemplate :: PodTemplateSpec

record DaemonSet =
  dsMeta :: ObjectMeta
  dsSpec :: DaemonSetSpec
  DesiredNumberScheduled :: "32 word"

record Pod =
  podName :: string

record PodList =
  Items :: "Pod list"
  RemainingItemCount :: "64 word option"
  Continue :: string

record DeploymentState =
  Exists :: bool
  Terminating :: bool

definition DeploymentState0 :: DeploymentState where
  "DeploymentState0 = \<lparr>Exists = False, Terminating = False\<rparr>"

record ApplicationState =
  DesiredReplicas :: int
  Replicas :: "string list"

definition ApplicationState0 :: ApplicationState where
  "ApplicationState0 = \<lparr>DesiredReplicas = 0, Replicas = []\<rparr>"

section \<open>The mutation batch and the cluster client\<close>

text \<open>
  \<open>resources.Applier\<close> buffers operations: \<open>Apply\<close> and \<open>Delete\<close> append to the
  batch, \<open>Run\<close> hands the batch to the cluster.
\<close>

datatype Resource =
    ResSecret Secret
  | ResService Service
  | ResStatefulSet StatefulSet
  | ResDeployment Deployment
  | ResDaemonSet DaemonSet
  | ResPersistentVolumeClaim PersistentVolumeClaim
  | ResStorageClass StorageClass

datatype operation = OpApply Resource | OpDelete Resource

type_synonym applier = "operation list"

definition applier_Apply :: "Resource \<Rightarrow> applier \<Rightarrow> applier" where
  "applier_Apply r ops = ops @ [OpApply r]"


text \<open>
  The collaborators of \<open>app\<close> that talk to the cluster, over a state \<open>'s\<close> of the
  outside world. A read answers from the state and leaves it alone; a write returns the
  new state and its error. A \<open>Get\<close> takes the name and the namespace of the object;
  \<open>PodsList\<close> takes the namespace, the label selector and the continue token.
\<close>

record 's client =
  SecretGet :: "string \<Rightarrow> string \<Rightarrow> 's \<Rightarrow> error + Secret"
  ServiceGet :: "string \<Rightarrow> string \<Rightarrow> 's \<Rightarrow> error + Service"
  ServiceApply :: "Service \<Rightarrow> 's \<Rightarrow> 's \<times> error option"
  StatefulSetGet :: "string \<Rightarrow> string \<Rightarrow> 's \<Rightarrow> error + StatefulSet"
  DeploymentGet :: "string \<Rightarrow> string \<Rightarrow> 's \<Rightarrow> error + Deployment"
  DaemonSetGet :: "string \<Rightarrow> string \<Rightarrow> 's \<Rightarrow> error + DaemonSet"
  ListStorageClass :: "'s \<Rightarrow> error + StorageClass list"
  PodsList :: "string \<Rightarrow> string \<Rightarrow> string \<Rightarrow> 's \<Rightarrow> error + PodList"
  applier_Run :: "applier \<Rightarrow> 's \<Rightarrow> 's \<times> error option"
  randomPrefix :: "'s \<Rightarrow> 's \<times> (error + string)"


section \<open>The application configuration (caas.ApplicationConfig)\<close>

record MountConfig =
  mcStorageName :: string
  mcPath :: string

record ContainerConfig =
  ccName :: string
  ccImage :: string
  Mounts :: "MountConfig list"

definition ContainerConfig0 :: ContainerConfig where
  "ContainerConfig0 = \<lparr>ccName = [], ccImage = [], Mounts = []\<rparr>"

record FilesystemAttachment =
  ReadOnly :: bool
  Path :: string

record KubernetesFilesystemParams =
  StorageName :: string
  Size :: "64 word"
  Attributes :: strmap
  fsResourceTags :: strmap
  Attachment :: "FilesystemAttachment option"

record Constraints =
  CpuPower :: "64 word option"
  Mem :: "64 word option"
  Arch :: "string option"

text \<open>
  \<open>Containers\<close> is a Go map from the container's key to its configuration: a list of
  pairs with distinct keys, read with \<open>map_of\<close>. Go leaves the order in which
  \<open>range\<close> visits a map open, and it may differ from one call to the next: the order of
  the list is the order in which \<open>range\<close> visits the map in the call at hand, and two
  lists with the same pairs are the same map. \<open>AgentVersion\<close> is the version as
  \<open>AgentVersion.String()\<close> renders it.
\<close>

record ApplicationConfig =
  IntroductionSecret :: string
  ControllerAddresses :: string
  ControllerCertBundle :: string
  AgentVersion :: string
  AgentImagePath :: string
  CharmBaseImage :: string
  CharmModifiedVersion :: int
  ConfigContainers :: "(string \<times> ContainerConfig) list"
  Filesystems :: "KubernetesFilesystemParams list"
  ResourceTags :: strmap
  ConfigConstraints :: Constraints

section \<open>Helpers of other packages\<close>

record VolumeParams =
  vpName :: string
  vpSize :: Quantity
  vpStorageClass :: string
  vpStorageProvisioner :: string
  vpParameters :: strmap

record StorageProvisionerCfg =
  provName :: string
  provNamespace :: string
  provModel :: string
  provProvisioner :: string
  provParameters :: strmap

text \<open>
  The pure helpers \<open>app\<close> calls in the packages \<open>k8sutils\<close>, \<open>constants\<close>,
  \<open>paths\<close>, \<open>arch\<close>, \<open>resource\<close> and \<open>storage\<close>, none of which is among the
  sources: the operations take them as a parameter. \<open>PushUniqueVolume\<close> and
  \<open>PushUniqueVolumeClaimTemplate\<close> are given the list they extend (the volumes of the
  pod spec, the claim templates of the stateful set) and return the new list.
  \<open>SortSlice\<close> is \<open>sort.Slice\<close> of Go's library, given the \<open>less\<close> function and
  the slice: it sorts, and promises nothing on the order of elements neither of which is
  less than the other.
\<close>

record ext =
  LabelsForApp :: "string \<Rightarrow> bool \<Rightarrow> strmap"
  SelectorLabelsForApp :: "string \<Rightarrow> bool \<Rightarrow> strmap"
  LabelsToSelector :: "strmap \<Rightarrow> string"
  ResourceTagsToAnnotations :: "strmap \<Rightarrow> bool \<Rightarrow> strmap"
  AnnotationsForVersion :: "string \<Rightarrow> bool \<Rightarrow> strmap"
  AnnotationKeyApplicationUUID :: "bool \<Rightarrow> string"
  AnnotationsForStorage :: "string \<Rightarrow> bool \<Rightarrow> strmap"
  LabelsForStorage :: "string \<Rightarrow> bool \<Rightarrow> strmap"
  LabelsJuju :: strmap
  LabelsMerge :: "strmap \<Rightarrow> strmap \<Rightarrow> strmap"
  DataDir :: string
  EnvAgentHTTPProbePort :: string
  AgentHTTPProbePort :: string
  AgentHTTPPathLiveness :: string
  AgentHTTPPathReadiness :: string
  AgentHTTPPathStartup :: string
  NormaliseArch :: "string \<Rightarrow> string"
  AMD64 :: string
  ARM64 :: string
  PPC64EL :: string
  S390X :: string
  ParseQuantity :: "string \<Rightarrow> error + Quantity"
  VolumeSourceForFilesystem :: "KubernetesFilesystemParams \<Rightarrow> error + VolumeSource option"
  ParseVolumeParams :: "string \<Rightarrow> Quantity \<Rightarrow> strmap \<Rightarrow> error + VolumeParams"
  QualifiedStorageClassName :: "string \<Rightarrow> string \<Rightarrow> string"
  StorageProvisioner :: "string \<Rightarrow> string \<Rightarrow> VolumeParams \<Rightarrow> StorageProvisionerCfg"
  StorageClassSpec :: "StorageProvisionerCfg \<Rightarrow> bool \<Rightarrow> StorageClass"
  PersistentVolumeClaimSpecOf :: "VolumeParams \<Rightarrow> PersistentVolumeClaimSpec"
  GetMountPathForFilesystem :: "nat \<Rightarrow> string \<Rightarrow> KubernetesFilesystemParams \<Rightarrow> string"
  PushUniqueVolume :: "Volume list \<Rightarrow> Volume \<Rightarrow> bool \<Rightarrow> error + Volume list"
  PushUniqueVolumeClaimTemplate ::
    "PersistentVolumeClaim list \<Rightarrow> PersistentVolumeClaim \<Rightarrow> error + PersistentVolumeClaim list"
  SortSlice ::
    "(ContainerConfig \<Rightarrow> ContainerConfig \<Rightarrow> bool) \<Rightarrow> ContainerConfig list \<Rightarrow> ContainerConfig list"

text \<open>
  Modelled from the spec: \<open>annotations.Annotation.Add\<close> and \<open>Merge\<close> (package
  core/annotations, not among the sources). \<open>Add\<close> sets one key, so that the workload
  carries the storage-unique prefix as an annotation; \<open>Merge\<close> adds every key of the
  second map to the first.
\<close>

definition Annotation_Add :: "string \<Rightarrow> string \<Rightarrow> strmap \<Rightarrow> strmap" where
  "Annotation_Add k v a = a(k \<mapsto> v)"

definition Annotation_Merge :: "strmap \<Rightarrow> strmap \<Rightarrow> strmap" where
  "Annotation_Merge a b = a ++ b"

text \<open>
  Modelled from the spec: the constructors \<open>resources.NewService\<close>,
  \<open>resources.NewSecret\<close> and their siblings (package resources, not among the sources)
  name the object and place it in the namespace; a nil object is the zero value.
\<close>

definition setNameNamespace :: "string \<Rightarrow> string \<Rightarrow> ObjectMeta \<Rightarrow> ObjectMeta" where
  "setNameNamespace n ns m = m\<lparr>Name := n, Namespace := ns\<rparr>"

definition NewService :: "string \<Rightarrow> string \<Rightarrow> Service \<Rightarrow> Service" where
  "NewService n ns svc = svc\<lparr>svcMeta := setNameNamespace n ns (svcMeta svc)\<rparr>"

definition NewPersistentVolumeClaim ::
  "string \<Rightarrow> string \<Rightarrow> PersistentVolumeClaim \<Rightarrow> PersistentVolumeClaim" where
  "NewPersistentVolumeClaim n ns pvc = pvc\<lparr>pvcMeta := setNameNamespace n ns (pvcMeta pvc)\<rparr>"

definition ServiceSpec0 :: ServiceSpec where
  "ServiceSpec0 = \<lparr>svcSelector = Map.empty, svcType = [], ClusterIP = [],
     PublishNotReadyAddresses = False, svcPorts = []\<rparr>"

definition Service0 :: Service where
  "Service0 = \<lparr>svcMeta = ObjectMeta0, svcSpec = ServiceSpec0\<rparr>"

definition Secret0 :: Secret where
  "Secret0 = \<lparr>secMeta = ObjectMeta0, Data = Map.empty\<rparr>"

definition PodSpec0 :: PodSpec where
  "PodSpec0 = \<lparr>AutomountServiceAccountToken = None, NodeSelector = Map.empty,
     InitContainers = [], Containers = [], Volumes = []\<rparr>"

definition PodTemplateSpec0 :: PodTemplateSpec where
  "PodTemplateSpec0 = \<lparr>tplLabels = Map.empty, tplAnnotations = Map.empty, tplSpec = PodSpec0\<rparr>"

definition StatefulSet0 :: StatefulSet where
  "StatefulSet0 = \<lparr>ssMeta = ObjectMeta0,
     ssSpec = \<lparr>ssReplicas = None, ssSelector = Map.empty, ssTemplate = PodTemplateSpec0,
       PodManagementPolicy = [], VolumeClaimTemplates = []\<rparr>\<rparr>"

definition Deployment0 :: Deployment where
  "Deployment0 = \<lparr>dMeta = ObjectMeta0,
     dSpec = \<lparr>dReplicas = None, dSelector = Map.empty, dTemplate = PodTemplateSpec0\<rparr>\<rparr>"

definition DaemonSet0 :: DaemonSet where
  "DaemonSet0 = \<lparr>dsMeta = ObjectMeta0,
     dsSpec = \<lparr>dsSelector = Map.empty, dsTemplate = PodTemplateSpec0\<rparr>,
     DesiredNumberScheduled = 0\<rparr>"

section \<open>Names, labels and annotations of an application\<close>

definition app_annotations :: "ext \<Rightarrow> app \<Rightarrow> ApplicationConfig \<Rightarrow> strmap" where
  "app_annotations x a config =
     Annotation_Merge (ResourceTagsToAnnotations x (ResourceTags config) (legacyLabels a))
       (AnnotationsForVersion x (AgentVersion config) (legacyLabels a))"

definition app_labels :: "ext \<Rightarrow> app \<Rightarrow> strmap" where
  "app_labels x a = LabelsForApp x (name a) (legacyLabels a)"

definition app_selectorLabels :: "ext \<Rightarrow> app \<Rightarrow> strmap" where
  "app_selectorLabels x a = SelectorLabelsForApp x (name a) (legacyLabels a)"

definition app_labelSelector :: "ext \<Rightarrow> app \<Rightarrow> string" where
  "app_labelSelector x a = LabelsToSelector x (SelectorLabelsForApp x (name a) (legacyLabels a))"

definition app_secretName :: "app \<Rightarrow> string" where
  "app_secretName a = name a @ ''-application-config''"

definition headlessServiceName :: "string \<Rightarrow> string" where
  "headlessServiceName appName = appName @ ''-endpoints''"

definition app_volumeName :: "app \<Rightarrow> string \<Rightarrow> string" where
  "app_volumeName a storageName = name a @ ''-'' @ storageName"

section \<open>The Services of an application\<close>

definition headlessService :: "ext \<Rightarrow> app \<Rightarrow> string \<Rightarrow> strmap \<Rightarrow> Service" where
  "headlessService x a nm annotation =
     NewService (headlessServiceName nm) (namespace a)
       \<lparr>svcMeta = ObjectMeta0\<lparr>Labels := app_labels x a,
          Annotations := Annotation_Add
            ''service.alpha.kubernetes.io/tolerate-unready-endpoints'' ''true'' annotation\<rparr>,
        svcSpec = ServiceSpec0\<lparr>svcSelector := app_selectorLabels x a,
          svcType := ServiceTypeClusterIP,
          ClusterIP := ''None'',
          PublishNotReadyAddresses := True\<rparr>\<rparr>"

definition app_configureHeadlessService ::
  "'s client \<Rightarrow> ext \<Rightarrow> app \<Rightarrow> string \<Rightarrow> strmap \<Rightarrow> 's \<Rightarrow> 's \<times> error option" where
  "app_configureHeadlessService cl x a nm annotation s =
     (let svc = headlessService x a nm annotation
      in ServiceApply cl svc s)"

definition defaultService :: "ext \<Rightarrow> app \<Rightarrow> strmap \<Rightarrow> Service" where
  "defaultService x a annotation =
     NewService (name a) (namespace a)
       \<lparr>svcMeta = ObjectMeta0\<lparr>Labels := app_labels x a, Annotations := annotation\<rparr>,
        svcSpec = ServiceSpec0\<lparr>svcSelector := app_selectorLabels x a,
          svcType := ServiceTypeClusterIP,
          svcPorts := [\<lparr>spName = ''placeholder'', spPort = 65535, spTargetPort = 0,
            spProtocol = []\<rparr>]\<rparr>\<rparr>"

text \<open>
  \<open>svc.Get\<close> fills \<open>svc\<close> when it succeeds; when it fails \<open>svc\<close> is still the object
  built here, and that is what \<open>svc.Apply\<close> writes.
\<close>

definition app_configureDefaultService ::
  "'s client \<Rightarrow> ext \<Rightarrow> app \<Rightarrow> strmap \<Rightarrow> 's \<Rightarrow> 's \<times> error option" where
  "app_configureDefaultService cl x a annotation s =
     (let svc = defaultService x a annotation
      in case ServiceGet cl (Name (svcMeta svc)) (Namespace (svcMeta svc)) s of
           Inl err \<Rightarrow> if IsNotFound err then ServiceApply cl svc s else (s, Some (Trace err))
         | Inr found \<Rightarrow> (s, None))"

section \<open>Existence checks\<close>

type_synonym check_result = "bool \<times> bool \<times> error option"

definition existsResult :: "error + ObjectMeta \<Rightarrow> check_result" where
  "existsResult r =
     (case r of
        Inl err \<Rightarrow> if IsNotFound err then (False, False, None) else (False, False, Some (Trace err))
      | Inr m \<Rightarrow> (True, DeletionTimestamp m \<noteq> None, None))"

definition app_statefulSetExists :: "'s client \<Rightarrow> app \<Rightarrow> 's \<Rightarrow> check_result" where
  "app_statefulSetExists cl a s =
     existsResult (map_sum id ssMeta (StatefulSetGet cl (name a) (namespace a) s))"

definition app_deploymentExists :: "'s client \<Rightarrow> app \<Rightarrow> 's \<Rightarrow> check_result" where
  "app_deploymentExists cl a s =
     existsResult (map_sum id dMeta (DeploymentGet cl (name a) (namespace a) s))"

definition app_daemonSetExists :: "'s client \<Rightarrow> app \<Rightarrow> 's \<Rightarrow> check_result" where
  "app_daemonSetExists cl a s =
     existsResult (map_sum id dsMeta (DaemonSetGet cl (name a) (namespace a) s))"

definition app_secretExists :: "'s client \<Rightarrow> app \<Rightarrow> 's \<Rightarrow> check_result" where
  "app_secretExists cl a s =
     existsResult (map_sum id secMeta (SecretGet cl (app_secretName a) (namespace a) s))"

definition app_serviceExists :: "'s client \<Rightarrow> app \<Rightarrow> 's \<Rightarrow> check_result" where
  "app_serviceExists cl a s =
     existsResult (map_sum id svcMeta (ServiceGet cl (name a) (namespace a) s))"

record 's check =
  label :: string
  check :: "'s \<Rightarrow> check_result"
  forceTerminating :: bool

text \<open>The loop of \<open>Exists\<close> over its checks; \<open>state\<close> is the verdict so far.\<close>

fun runChecks :: "'s check list \<Rightarrow> DeploymentState \<Rightarrow> 's \<Rightarrow> DeploymentState \<times> error option" where
  "runChecks [] state s = (state, None)"
| "runChecks (c # cs) state s =
     (case check c s of
        (exists, terminating, Some err) \<Rightarrow>
          (DeploymentState0, Some (ErrAnnotate ''%s resource check'' [label c] err))
      | (exists, terminating, None) \<Rightarrow>
          if \<not> exists then runChecks cs state s
          else if terminating \<or> forceTerminating c
            then (\<lparr>Exists = True, Terminating = True\<rparr>, None)
            else runChecks cs (state\<lparr>Exists := True\<rparr>) s)"

definition app_Exists :: "'s client \<Rightarrow> app \<Rightarrow> 's \<Rightarrow> DeploymentState \<times> error option" where
  "app_Exists cl a s =
     (let rest = [\<lparr>label = ''secret'', check = app_secretExists cl a, forceTerminating = False\<rparr>,
                  \<lparr>label = ''service'', check = app_serviceExists cl a, forceTerminating = False\<rparr>]
      in case deploymentType a of
           DeploymentStateful \<Rightarrow>
             runChecks (\<lparr>label = ''statefulset'', check = app_statefulSetExists cl a,
               forceTerminating = False\<rparr> # rest) DeploymentState0 s
         | DeploymentStateless \<Rightarrow>
             runChecks (\<lparr>label = ''deployment'', check = app_deploymentExists cl a,
               forceTerminating = False\<rparr> # rest) DeploymentState0 s
         | DeploymentDaemon \<Rightarrow>
             runChecks (\<lparr>label = ''daemonset'', check = app_daemonSetExists cl a,
               forceTerminating = False\<rparr> # rest) DeploymentState0 s
         | DeploymentOther v \<Rightarrow>
             (DeploymentState0, Some (ErrNotSupported ''unknown deployment type'' [])))"


section \<open>Delete\<close>


section \<open>State\<close>

text \<open>
  The pagination loop of \<open>State\<close>: \<open>next\<close> is the continue token of the request,
  \<open>acc\<close> the names gathered so far. The loop has no bound of its own, so a run that
  never ends is the value \<open>None\<close>.
\<close>

partial_function (option) listReplicas ::
  "'s client \<Rightarrow> string \<Rightarrow> string \<Rightarrow> 's \<Rightarrow> string \<Rightarrow> string list \<Rightarrow> (error + string list) option" where
  "listReplicas cl ns selector s next acc =
     (case PodsList cl ns selector next s of
        Inl err \<Rightarrow> Some (Inl (Trace err))
      | Inr res \<Rightarrow>
          (if RemainingItemCount res = None \<or> RemainingItemCount res = Some 0
           then Some (Inr (acc @ map podName (Items res)))
           else listReplicas cl ns selector s (Continue res) (acc @ map podName (Items res))))"

text \<open>
  The first half of \<open>State\<close>: the desired replica count, read from the live workload.
  \<open>int(*ss.Spec.Replicas)\<close> widens a signed 32-bit value.
\<close>

definition desiredReplicas :: "'s client \<Rightarrow> app \<Rightarrow> 's \<Rightarrow> error + int" where
  "desiredReplicas cl a s =
     (case deploymentType a of
        DeploymentStateful \<Rightarrow>
          (case StatefulSetGet cl (name a) (namespace a) s of
             Inl err \<Rightarrow> Inl (Trace err)
           | Inr ss \<Rightarrow>
               (case ssReplicas (ssSpec ss) of
                  None \<Rightarrow> Inl (ErrErrorf ''missing replicas'' [])
                | Some r \<Rightarrow> Inr (sint r)))
      | DeploymentStateless \<Rightarrow>
          (case DeploymentGet cl (name a) (namespace a) s of
             Inl err \<Rightarrow> Inl (Trace err)
           | Inr d \<Rightarrow>
               (case dReplicas (dSpec d) of
                  None \<Rightarrow> Inl (ErrErrorf ''missing replicas'' [])
                | Some r \<Rightarrow> Inr (sint r)))
      | DeploymentDaemon \<Rightarrow>
          (case DaemonSetGet cl (name a) (namespace a) s of
             Inl err \<Rightarrow> Inl (Trace err)
           | Inr d \<Rightarrow> Inr (sint (DesiredNumberScheduled d)))
      | DeploymentOther v \<Rightarrow> Inl (ErrNotSupported ''unknown deployment type'' []))"

definition app_State ::
  "'s client \<Rightarrow> ext \<Rightarrow> app \<Rightarrow> 's \<Rightarrow> (ApplicationState \<times> error option) option" where
  "app_State cl x a s =
     (case desiredReplicas cl a s of
        Inl err \<Rightarrow> Some (ApplicationState0, Some err)
      | Inr n \<Rightarrow>
          (case listReplicas cl (namespace a) (app_labelSelector x a) s [] [] of
             None \<Rightarrow> None
           | Some (Inl err) \<Rightarrow> Some (ApplicationState0, Some err)
           | Some (Inr names) \<Rightarrow> Some (\<lparr>DesiredReplicas = n, Replicas = sort names\<rparr>, None)))"


section \<open>The pod spec of an application\<close>

definition unitContainerName :: string where
  "unitContainerName = ''charm''"

definition charmVolumeName :: string where
  "charmVolumeName = ''charm-data''"

definition agentProbeInitialDelay :: "32 word" where
  "agentProbeInitialDelay = 30"

definition agentProbePeriod :: "32 word" where
  "agentProbePeriod = 10"

definition agentProbeSuccess :: "32 word" where
  "agentProbeSuccess = 1"

definition agentProbeFailure :: "32 word" where
  "agentProbeFailure = 2"

text \<open>Decimal digits, for \<open>strconv.Itoa\<close> and the verb \<open>%d\<close>.\<close>

fun showNat :: "nat \<Rightarrow> string" where
  "showNat n =
     (if n < 10 then [char_of (48 + n)] else showNat (n div 10) @ [char_of (48 + n mod 10)])"

declare showNat.simps [simp del]

definition Itoa :: "int \<Rightarrow> string" where
  "Itoa i = (if i < 0 then ''-'' @ showNat (nat (- i)) else showNat (nat i))"

fun Join :: "string list \<Rightarrow> string \<Rightarrow> string" where
  "Join [] sep = []"
| "Join [a] sep = a"
| "Join (a # b # rest) sep = a @ sep @ Join (b # rest) sep"

definition TrimPrefix :: "string \<Rightarrow> string \<Rightarrow> string" where
  "TrimPrefix str pre = (if take (length pre) str = pre then drop (length pre) str else str)"

text \<open>
  Modelled from the spec: \<open>constraints.Value.HasCpuPower\<close>, \<open>HasMem\<close> and
  \<open>HasArch\<close> (package core/constraints, not among the sources) say whether the resource
  constraint (CPU, memory, architecture) is set.
\<close>

definition HasCpuPower :: "Constraints \<Rightarrow> bool" where
  "HasCpuPower v = (case CpuPower v of None \<Rightarrow> False | Some p \<Rightarrow> p \<noteq> 0)"

definition HasMem :: "Constraints \<Rightarrow> bool" where
  "HasMem v = (case Mem v of None \<Rightarrow> False | Some m \<Rightarrow> m \<noteq> 0)"

definition HasArch :: "Constraints \<Rightarrow> bool" where
  "HasArch v = (case Arch v of None \<Rightarrow> False | Some r \<Rightarrow> r \<noteq> [])"

definition Container0 :: Container where
  "Container0 = \<lparr>cName = [], ImagePullPolicy = [], Image = [], WorkingDir = [], Command = [],
     Args = [], Env = [], EnvFromSecret = [], RunAsUser = None, RunAsGroup = None,
     LivenessProbe = None, ReadinessProbe = None, StartupProbe = None, VolumeMounts = [],
     Requests = Map.empty, Ports = []\<rparr>"

definition agentProbe :: "ext \<Rightarrow> string \<Rightarrow> Probe" where
  "agentProbe x path = \<lparr>HTTPGetPath = path, HTTPGetPort = AgentHTTPProbePort x,
     InitialDelaySeconds = agentProbeInitialDelay, PeriodSeconds = agentProbePeriod,
     SuccessThreshold = agentProbeSuccess, FailureThreshold = agentProbeFailure\<rparr>"

definition resourceRequests :: "Constraints \<Rightarrow> string \<rightharpoonup> Quantity" where
  "resourceRequests v =
     (let r1 = (if HasCpuPower v then Map.empty(''cpu'' \<mapsto> MilliQuantity (the (CpuPower v)))
                else Map.empty)
      in if HasMem v then r1(''memory'' \<mapsto> BinaryQuantity (the (Mem v) * 1024 * 1024)) else r1)"

definition charmContainer :: "ext \<Rightarrow> ApplicationConfig \<Rightarrow> string list \<Rightarrow> Container" where
  "charmContainer x config containerNames =
     Container0\<lparr>
       cName := unitContainerName,
       ImagePullPolicy := ''IfNotPresent'',
       Image := CharmBaseImage config,
       WorkingDir := DataDir x,
       Command := [''/charm/bin/containeragent''],
       Args := [''unit'', ''--data-dir'', DataDir x,
                ''--charm-modified-version'', Itoa (CharmModifiedVersion config),
                ''--append-env'', ''PATH=$PATH:/charm/bin''],
       Env := [\<lparr>envName = ''JUJU_CONTAINER_NAMES'', envValue = Join containerNames '','',
                 envFieldPath = None\<rparr>,
               \<lparr>envName = EnvAgentHTTPProbePort x, envValue = AgentHTTPProbePort x,
                 envFieldPath = None\<rparr>],
       RunAsUser := Some 0,
       RunAsGroup := Some 0,
       LivenessProbe := Some (agentProbe x (AgentHTTPPathLiveness x)),
       ReadinessProbe := Some (agentProbe x (AgentHTTPPathReadiness x)),
       StartupProbe := Some (agentProbe x (AgentHTTPPathStartup x)),
       VolumeMounts :=
         [\<lparr>vmName = charmVolumeName, vmReadOnly = True, vmMountPath = ''/charm/bin'',
            vmSubPath = ''charm/bin''\<rparr>,
          \<lparr>vmName = charmVolumeName, vmReadOnly = False, vmMountPath = DataDir x,
            vmSubPath = TrimPrefix (DataDir x) ''/''\<rparr>,
          \<lparr>vmName = charmVolumeName, vmReadOnly = False, vmMountPath = ''/charm/containers'',
            vmSubPath = ''charm/containers''\<rparr>],
       Requests := resourceRequests (ConfigConstraints config)\<rparr>"

definition pebbleContainer :: "ContainerConfig \<Rightarrow> Container" where
  "pebbleContainer v =
     Container0\<lparr>
       cName := ccName v,
       ImagePullPolicy := ''IfNotPresent'',
       Image := ccImage v,
       Command := [''/charm/bin/pebble''],
       Args := [''run'', ''--create-dirs'', ''--hold''],
       Env := [\<lparr>envName = ''JUJU_CONTAINER_NAME'', envValue = ccName v, envFieldPath = None\<rparr>,
               \<lparr>envName = ''PEBBLE_SOCKET'', envValue = ''/charm/container/pebble.socket'',
                 envFieldPath = None\<rparr>],
       RunAsUser := Some 0,
       RunAsGroup := Some 0,
       VolumeMounts :=
         [\<lparr>vmName = charmVolumeName, vmReadOnly = True, vmMountPath = ''/charm/bin/pebble'',
            vmSubPath = ''charm/bin/pebble''\<rparr>,
          \<lparr>vmName = charmVolumeName, vmReadOnly = False, vmMountPath = ''/charm/container'',
            vmSubPath = ''charm/containers/'' @ ccName v\<rparr>]\<rparr>"

definition initContainer :: "ext \<Rightarrow> app \<Rightarrow> ApplicationConfig \<Rightarrow> string list \<Rightarrow> Container" where
  "initContainer x a config containerNames =
     Container0\<lparr>
       cName := ''charm-init'',
       ImagePullPolicy := ''IfNotPresent'',
       Image := AgentImagePath config,
       WorkingDir := DataDir x,
       Command := [''/opt/containeragent''],
       Args := [''init'', ''--data-dir'', DataDir x, ''--bin-dir'', ''/charm/bin''],
       Env := [\<lparr>envName = ''JUJU_CONTAINER_NAMES'', envValue = Join containerNames '','',
                 envFieldPath = None\<rparr>,
               \<lparr>envName = ''JUJU_K8S_POD_NAME'', envValue = [],
                 envFieldPath = Some ''metadata.name''\<rparr>,
               \<lparr>envName = ''JUJU_K8S_POD_UUID'', envValue = [],
                 envFieldPath = Some ''metadata.uid''\<rparr>],
       EnvFromSecret := [app_secretName a],
       VolumeMounts :=
         [\<lparr>vmName = charmVolumeName, vmReadOnly = False, vmMountPath = DataDir x,
            vmSubPath = TrimPrefix (DataDir x) ''/''\<rparr>,
          \<lparr>vmName = charmVolumeName, vmReadOnly = False, vmMountPath = ''/charm/bin'',
            vmSubPath = ''charm/bin''\<rparr>,
          \<lparr>vmName = charmVolumeName, vmReadOnly = False, vmMountPath = ''/charm/containers'',
            vmSubPath = ''charm/containers''\<rparr>]\<rparr>"

text \<open>
  The node selector: the architecture constraint, normalised and turned into Go's
  architecture name; an architecture outside the four known ones is not supported.
\<close>

definition nodeSelectorFor :: "ext \<Rightarrow> Constraints \<Rightarrow> error + strmap" where
  "nodeSelectorFor x v =
     (if HasArch v then
        (let cpuArch = NormaliseArch x (the (Arch v))
         in if cpuArch = AMD64 x then Inr (Map.empty(''kubernetes.io/arch'' \<mapsto> ''amd64''))
            else if cpuArch = ARM64 x then Inr (Map.empty(''kubernetes.io/arch'' \<mapsto> ''arm64''))
            else if cpuArch = PPC64EL x then Inr (Map.empty(''kubernetes.io/arch'' \<mapsto> ''ppc64le''))
            else if cpuArch = S390X x then Inr (Map.empty(''kubernetes.io/arch'' \<mapsto> ''s390x''))
            else Inl (ErrNotSupported ''architecture %q'' [cpuArch]))
      else Inr Map.empty)"

text \<open>
  The containers are taken out of the map in the order \<open>range\<close> visits it and sorted by
  name with \<open>sort.Slice\<close>; the names are sorted with \<open>sort.Strings\<close>. Containers of
  equal name come out in the order \<open>sort.Slice\<close> leaves them in, which depends on the
  order of the visit.
\<close>

definition app_applicationPodSpec :: "ext \<Rightarrow> app \<Rightarrow> ApplicationConfig \<Rightarrow> error + PodSpec" where
  "app_applicationPodSpec x a config =
     (let containerNames = sort (map (\<lambda>kv. ccName (snd kv)) (ConfigContainers config));
          containers = SortSlice x (\<lambda>ci cj. ccName ci < ccName cj)
                         (map snd (ConfigContainers config));
          containerSpecs = charmContainer x config containerNames # map pebbleContainer containers
      in case nodeSelectorFor x (ConfigConstraints config) of
           Inl err \<Rightarrow> Inl err
         | Inr nodeSelector \<Rightarrow>
             Inr \<lparr>AutomountServiceAccountToken = Some False,
                  NodeSelector = nodeSelector,
                  InitContainers = [initContainer x a config containerNames],
                  Containers = containerSpecs,
                  Volumes = [\<lparr>volName = charmVolumeName, volSource = EmptyDir\<rparr>]\<rparr>)"


section \<open>Storage\<close>

definition app_getStorageUniqPrefix ::
  "'s client \<Rightarrow> ext \<Rightarrow> ('s \<Rightarrow> error + strmap) \<Rightarrow> 's \<Rightarrow> 's \<times> (error + string)" where
  "app_getStorageUniqPrefix cl x getMeta s =
     (case getMeta s of
        Inr annots \<Rightarrow>
          (case annots (AnnotationKeyApplicationUUID x False) of
             Some uniqID \<Rightarrow> if length uniqID > 0 then (s, Inr uniqID) else randomPrefix cl s
           | None \<Rightarrow> randomPrefix cl s)
      | Inl err \<Rightarrow>
          if \<not> IsNotFound err then (s, Inl (Trace err)) else randomPrefix cl s)"

type_synonym volumeInfo =
  "Volume option \<times> PersistentVolumeClaim option \<times> StorageClass option"

definition app_filesystemToVolumeInfo ::
  "ext \<Rightarrow> app \<Rightarrow> string \<Rightarrow> KubernetesFilesystemParams \<Rightarrow> (string \<rightharpoonup> StorageClass) \<Rightarrow>
   (string \<Rightarrow> string) \<Rightarrow> error + volumeInfo" where
  "app_filesystemToVolumeInfo x a nm fs storageClasses pvcNameGetter =
     (case ParseQuantity x (showNat (unat (Size fs)) @ ''Mi'') of
        Inl err \<Rightarrow> Inl (ErrAnnotate ''invalid volume size %v'' [showNat (unat (Size fs))] err)
      | Inr fsSize \<Rightarrow>
     (case VolumeSourceForFilesystem x fs of
        Inl err \<Rightarrow> Inl (Trace err)
      | Inr (Some volumeSource) \<Rightarrow>
          Inr (Some \<lparr>volName = nm, volSource = volumeSource\<rparr>, None, None)
      | Inr None \<Rightarrow>
     (case ParseVolumeParams x (pvcNameGetter nm) fsSize (Attributes fs) of
        Inl err \<Rightarrow> Inl (ErrAnnotate ''getting volume params for %s'' [StorageName fs] err)
      | Inr params0 \<Rightarrow>
          (let qualifiedStorageClassName =
                 QualifiedStorageClassName x (namespace a) (vpStorageClass params0);
               (newStorageClass, params) =
                 (if storageClasses (vpStorageClass params0) \<noteq> None then (None, params0)
                  else if storageClasses qualifiedStorageClassName \<noteq> None
                    then (None, params0\<lparr>vpStorageClass := qualifiedStorageClassName\<rparr>)
                  else (let sp = StorageProvisioner x (namespace a) (modelName a) params0;
                            sc = StorageClassSpec x sp (legacyLabels a)
                        in (Some sc, params0\<lparr>vpStorageClass := Name (scMeta sc)\<rparr>)));
               labels = LabelsMerge x (LabelsForStorage x (StorageName fs) (legacyLabels a))
                          (LabelsJuju x);
               pvc = \<lparr>pvcMeta = ObjectMeta0\<lparr>
                          Name := vpName params,
                          Labels := labels,
                          Annotations := Annotation_Merge
                            (ResourceTagsToAnnotations x (fsResourceTags fs) (legacyLabels a))
                            (AnnotationsForStorage x (StorageName fs) (legacyLabels a))\<rparr>,
                       pvcSpec = PersistentVolumeClaimSpecOf x params\<rparr>
           in Inr (None, Some pvc, newStorageClass)))))"

text \<open>
  The handlers \<open>configureStorage\<close> is given are closures over the variables of
  \<open>Ensure\<close>; here they are functions on a state \<open>'l\<close> of those variables. A handler
  that may be nil is an option.
\<close>

type_synonym 'l handleVolumeFunc =
  "Volume \<Rightarrow> string \<Rightarrow> bool \<Rightarrow> 'l \<Rightarrow> 'l \<times> (error + VolumeMount option)"

type_synonym 'l handlePVCFunc =
  "PersistentVolumeClaim \<Rightarrow> string \<Rightarrow> bool \<Rightarrow> 'l \<Rightarrow> 'l \<times> (error + VolumeMount option)"

type_synonym 'l handleVolumeMountFunc = "string \<Rightarrow> VolumeMount \<Rightarrow> 'l \<Rightarrow> 'l \<times> error option"

type_synonym 'l handleStorageClassFunc = "StorageClass \<Rightarrow> 'l \<Rightarrow> 'l \<times> error option"

definition storageClassMapOf :: "StorageClass list \<Rightarrow> string \<rightharpoonup> StorageClass" where
  "storageClassMapOf storageClasses =
     foldl (\<lambda>m v. m(Name (scMeta v) \<mapsto> v)) Map.empty storageClasses"

text \<open>
  The four steps of one round of the loop of \<open>configureStorage\<close>, in the order of
  the source: the volume, the new storage class (which also enters the storage class map),
  the claim (its mount replaces the mount of the volume), and the mount.
\<close>

definition volumeStep ::
  "'l handleVolumeFunc option \<Rightarrow> Volume option \<Rightarrow> string \<Rightarrow> bool \<Rightarrow> 'l \<Rightarrow>
   'l \<times> (error + VolumeMount option)" where
  "volumeStep handleVolume vol mountPath readOnly l =
     (case (vol, handleVolume) of
        (Some v, Some h) \<Rightarrow>
          (case h v mountPath readOnly l of
             (l1, Inl err) \<Rightarrow> (l1, Inl (Trace err))
           | (l1, Inr volumeMount) \<Rightarrow> (l1, Inr volumeMount))
      | _ \<Rightarrow> (l, Inr None))"

definition storageClassStep ::
  "'l handleStorageClassFunc option \<Rightarrow> StorageClass option \<Rightarrow> (string \<rightharpoonup> StorageClass) \<Rightarrow> 'l \<Rightarrow>
   'l \<times> (string \<rightharpoonup> StorageClass) \<times> error option" where
  "storageClassStep handleStorageClass sc storageClassMap l =
     (case (sc, handleStorageClass) of
        (Some c, Some h) \<Rightarrow>
          (case h c l of
             (l2, Some err) \<Rightarrow> (l2, storageClassMap, Some (Trace err))
           | (l2, None) \<Rightarrow> (l2, storageClassMap(Name (scMeta c) \<mapsto> c), None))
      | _ \<Rightarrow> (l, storageClassMap, None))"

definition claimStep ::
  "'l handlePVCFunc option \<Rightarrow> PersistentVolumeClaim option \<Rightarrow> string \<Rightarrow> bool \<Rightarrow>
   VolumeMount option \<Rightarrow> 'l \<Rightarrow> 'l \<times> (error + VolumeMount option)" where
  "claimStep handlePVC pvc mountPath readOnly volumeMount l =
     (case (pvc, handlePVC) of
        (Some p, Some h) \<Rightarrow>
          (case h p mountPath readOnly l of
             (l3, Inl err) \<Rightarrow> (l3, Inl (Trace err))
           | (l3, Inr claimMount) \<Rightarrow> (l3, Inr claimMount))
      | _ \<Rightarrow> (l, Inr volumeMount))"

definition mountStep ::
  "'l handleVolumeMountFunc \<Rightarrow> string \<Rightarrow> VolumeMount option \<Rightarrow> 'l \<Rightarrow> 'l \<times> error option" where
  "mountStep handleVolumeMount storageName volumeMount l =
     (case volumeMount of
        None \<Rightarrow> (l, None)
      | Some vm \<Rightarrow>
          (case handleVolumeMount storageName vm l of
             (l4, Some err) \<Rightarrow> (l4, Some (Trace err))
           | (l4, None) \<Rightarrow> (l4, None)))"

text \<open>
  One round of the loop of \<open>configureStorage\<close> after the duplicate check: the filesystem
  \<open>fs\<close> at position \<open>index\<close>. It returns the variables of \<open>Ensure\<close>, the storage
  class map and the error.
\<close>

definition configureFilesystem ::
  "ext \<Rightarrow> app \<Rightarrow> string \<Rightarrow> 'l handleVolumeFunc option \<Rightarrow> 'l handleVolumeMountFunc \<Rightarrow>
   'l handlePVCFunc option \<Rightarrow> 'l handleStorageClassFunc option \<Rightarrow>
   nat \<Rightarrow> KubernetesFilesystemParams \<Rightarrow> (string \<rightharpoonup> StorageClass) \<Rightarrow> 'l \<Rightarrow>
   'l \<times> (string \<rightharpoonup> StorageClass) \<times> error option" where
  "configureFilesystem x a storageUniqueID handleVolume handleVolumeMount handlePVC
       handleStorageClass index fs storageClassMap l =
     (let readOnly = (case Attachment fs of None \<Rightarrow> False | Some at \<Rightarrow> ReadOnly at);
          nm = app_volumeName a (StorageName fs);
          pvcNameGetter = (\<lambda>volName. volName @ ''-'' @ storageUniqueID)
      in case app_filesystemToVolumeInfo x a nm fs storageClassMap pvcNameGetter of
           Inl err \<Rightarrow> (l, storageClassMap, Some (Trace err))
         | Inr (vol, pvc, sc) \<Rightarrow>
     (let mountPath = GetMountPathForFilesystem x index (name a) fs
      in case volumeStep handleVolume vol mountPath readOnly l of
           (l1, Inl err) \<Rightarrow> (l1, storageClassMap, Some err)
         | (l1, Inr volumeMount1) \<Rightarrow>
     (case storageClassStep handleStorageClass sc storageClassMap l1 of
        (l2, m2, Some err) \<Rightarrow> (l2, m2, Some err)
      | (l2, m2, None) \<Rightarrow>
     (case claimStep handlePVC pvc mountPath readOnly volumeMount1 l2 of
        (l3, Inl err) \<Rightarrow> (l3, m2, Some err)
      | (l3, Inr volumeMount) \<Rightarrow>
     (case mountStep handleVolumeMount (StorageName fs) volumeMount l3 of
        (l4, Some err) \<Rightarrow> (l4, m2, Some err)
      | (l4, None) \<Rightarrow> (l4, m2, None))))))"

text \<open>
  The loop of \<open>configureStorage\<close>: \<open>fsNames\<close> holds the storage names seen so far,
  \<open>index\<close> counts the filesystems.
\<close>

fun configureStorageLoop ::
  "ext \<Rightarrow> app \<Rightarrow> string \<Rightarrow> 'l handleVolumeFunc option \<Rightarrow> 'l handleVolumeMountFunc \<Rightarrow>
   'l handlePVCFunc option \<Rightarrow> 'l handleStorageClassFunc option \<Rightarrow>
   nat \<Rightarrow> KubernetesFilesystemParams list \<Rightarrow> string set \<Rightarrow> (string \<rightharpoonup> StorageClass) \<Rightarrow>
   'l \<Rightarrow> 'l \<times> error option" where
  "configureStorageLoop x a uid hV hVM hPVC hSC index [] fsNames storageClassMap l = (l, None)"
| "configureStorageLoop x a uid hV hVM hPVC hSC index (fs # rest) fsNames storageClassMap l =
     (if StorageName fs \<in> fsNames
      then (l, Some (ErrNotValid ''duplicated storage name %q for %q'' [StorageName fs, name a]))
      else case configureFilesystem x a uid hV hVM hPVC hSC index fs storageClassMap l of
             (l', m', Some err) \<Rightarrow> (l', Some err)
           | (l', m', None) \<Rightarrow>
               configureStorageLoop x a uid hV hVM hPVC hSC (Suc index) rest
                 (insert (StorageName fs) fsNames) m' l')"

definition app_configureStorage ::
  "ext \<Rightarrow> app \<Rightarrow> string \<Rightarrow> KubernetesFilesystemParams list \<Rightarrow> StorageClass list \<Rightarrow>
   'l handleVolumeFunc option \<Rightarrow> 'l handleVolumeMountFunc \<Rightarrow> 'l handlePVCFunc option \<Rightarrow>
   'l handleStorageClassFunc option \<Rightarrow> 'l \<Rightarrow> 'l \<times> error option" where
  "app_configureStorage x a storageUniqueID filesystems storageClasses handleVolume
       handleVolumeMount handlePVC handleStorageClass l =
     configureStorageLoop x a storageUniqueID handleVolume handleVolumeMount handlePVC
       handleStorageClass 0 filesystems {} (storageClassMapOf storageClasses) l"


section \<open>Ensure\<close>

text \<open>
  The variables of \<open>Ensure\<close> its closures change: the mutation batch, the pod spec
  behind the pointer \<open>podSpec\<close>, and (for a stateful application) the stateful set.
\<close>

record ensure_vars =
  staged :: applier
  podSpec :: PodSpec
  statefulset :: StatefulSet

definition handleVolume :: "ext \<Rightarrow> ensure_vars handleVolumeFunc" where
  "handleVolume x v mountPath readOnly l =
     (case PushUniqueVolume x (Volumes (podSpec l)) v False of
        Inl err \<Rightarrow> (l, Inl (Trace err))
      | Inr vols \<Rightarrow>
          (l\<lparr>podSpec := (podSpec l)\<lparr>Volumes := vols\<rparr>\<rparr>,
           Inr (Some \<lparr>vmName = volName v, vmReadOnly = readOnly, vmMountPath = mountPath,
             vmSubPath = []\<rparr>)))"

text \<open>\<open>config.Containers[name]\<close>: a key that is absent reads as the zero value.\<close>

definition containerConfigOf :: "ApplicationConfig \<Rightarrow> string \<Rightarrow> ContainerConfig" where
  "containerConfigOf config nm =
     (case map_of (ConfigContainers config) nm of None \<Rightarrow> ContainerConfig0 | Some c \<Rightarrow> c)"

definition mountInContainer ::
  "ApplicationConfig \<Rightarrow> string \<Rightarrow> VolumeMount \<Rightarrow> Container \<Rightarrow> Container" where
  "mountInContainer config storageName m c =
     (if cName c = unitContainerName then c\<lparr>VolumeMounts := VolumeMounts c @ [m]\<rparr>
      else c\<lparr>VolumeMounts := VolumeMounts c @
             map (\<lambda>mount. m\<lparr>vmMountPath := mcPath mount\<rparr>)
               (filter (\<lambda>mount. mcStorageName mount = storageName)
                  (Mounts (containerConfigOf config (cName c))))\<rparr>)"

definition handleVolumeMount :: "ApplicationConfig \<Rightarrow> ensure_vars handleVolumeMountFunc" where
  "handleVolumeMount config storageName m l =
     (l\<lparr>podSpec := (podSpec l)\<lparr>Containers :=
          map (mountInContainer config storageName m) (Containers (podSpec l))\<rparr>\<rparr>, None)"

definition handlePVCForStatelessResource :: "ext \<Rightarrow> app \<Rightarrow> ensure_vars handlePVCFunc" where
  "handlePVCForStatelessResource x a pvc mountPath readOnly l =
     (let r = NewPersistentVolumeClaim (Name (pvcMeta pvc)) (namespace a) pvc;
          l1 = l\<lparr>staged := applier_Apply (ResPersistentVolumeClaim r) (staged l)\<rparr>;
          vol = \<lparr>volName = Name (pvcMeta r),
                 volSource = PersistentVolumeClaimSource (Name (pvcMeta r)) readOnly\<rparr>
      in handleVolume x vol mountPath readOnly l1)"

definition handleStorageClass :: "ensure_vars handleStorageClassFunc" where
  "handleStorageClass sc l = (l\<lparr>staged := applier_Apply (ResStorageClass sc) (staged l)\<rparr>, None)"

text \<open>The claim handler of a stateful application: the claim becomes a claim template.\<close>

definition handlePVCForStatefulSet :: "ext \<Rightarrow> ensure_vars handlePVCFunc" where
  "handlePVCForStatefulSet x pvc mountPath readOnly l =
     (case PushUniqueVolumeClaimTemplate x (VolumeClaimTemplates (ssSpec (statefulset l))) pvc of
        Inl err \<Rightarrow> (l, Inl (Trace err))
      | Inr tpls \<Rightarrow>
          (l\<lparr>statefulset := (statefulset l)\<lparr>ssSpec :=
               (ssSpec (statefulset l))\<lparr>VolumeClaimTemplates := tpls\<rparr>\<rparr>\<rparr>,
           Inr (Some \<lparr>vmName = Name (pvcMeta pvc), vmReadOnly = readOnly,
             vmMountPath = mountPath, vmSubPath = []\<rparr>)))"

definition configureStorage ::
  "ext \<Rightarrow> app \<Rightarrow> ApplicationConfig \<Rightarrow> StorageClass list \<Rightarrow> string \<Rightarrow>
   ensure_vars handlePVCFunc \<Rightarrow> ensure_vars \<Rightarrow> ensure_vars \<times> error option" where
  "configureStorage x a config storageClasses storageUniqueID handlePVC l =
     (case app_configureStorage x a storageUniqueID (Filesystems config) storageClasses
             (Some (handleVolume x)) (handleVolumeMount config) (Some handlePVC)
             (Some handleStorageClass) l of
        (l', Some err) \<Rightarrow> (l', Some (Trace err))
      | (l', None) \<Rightarrow> (l', None))"

definition workloadMeta :: "ext \<Rightarrow> app \<Rightarrow> ApplicationConfig \<Rightarrow> string \<Rightarrow> ObjectMeta" where
  "workloadMeta x a config storageUniqueID =
     ObjectMeta0\<lparr>Name := name a, Namespace := namespace a, Labels := app_labels x a,
       Annotations := Annotation_Add (AnnotationKeyApplicationUUID x False) storageUniqueID
         (app_annotations x a config)\<rparr>"

definition podTemplate :: "ext \<Rightarrow> app \<Rightarrow> ApplicationConfig \<Rightarrow> PodSpec \<Rightarrow> PodTemplateSpec" where
  "podTemplate x a config spec =
     \<lparr>tplLabels = app_selectorLabels x a, tplAnnotations = app_annotations x a config,
      tplSpec = spec\<rparr>"

text \<open>
  What a \<open>Get\<close> of the workload tells \<open>Ensure\<close>: the workload exists, or it does not
  (not found), or the read failed.
\<close>

definition existsOf :: "error + 'a \<Rightarrow> error + bool" where
  "existsOf getRes =
     (case getRes of
        Inl getErr \<Rightarrow> if IsNotFound getErr then Inr False else Inl getErr
      | Inr r \<Rightarrow> Inr True)"

definition numPodsOf :: "bool \<Rightarrow> 32 word option" where
  "numPodsOf exists = (if \<not> exists then Some 1 else None)"

text \<open>The stateful set as \<open>Ensure\<close> builds it, before the storage is configured.\<close>

definition statefulSetOf ::
  "ext \<Rightarrow> app \<Rightarrow> ApplicationConfig \<Rightarrow> PodSpec \<Rightarrow> bool \<Rightarrow> string \<Rightarrow> StatefulSet" where
  "statefulSetOf x a config spec exists storageUniqueID =
     \<lparr>ssMeta = workloadMeta x a config storageUniqueID,
      ssSpec = \<lparr>ssReplicas = numPodsOf exists,
        ssSelector = app_selectorLabels x a,
        ssTemplate = podTemplate x a config spec,
        PodManagementPolicy = ''Parallel'',
        VolumeClaimTemplates = []\<rparr>\<rparr>"

text \<open>
  The stateful branch. The stateful set is built with a copy of \<open>*podSpec\<close> before
  \<open>configureStorage\<close> runs. The copy shares the array of containers with \<open>podSpec\<close>,
  so the volume mounts the handlers add to the containers show in the stateful set; a
  volume appended to \<open>podSpec.Volumes\<close> does not, the copy has its own slice header.
\<close>

definition ensureStateful ::
  "'s client \<Rightarrow> ext \<Rightarrow> app \<Rightarrow> ApplicationConfig \<Rightarrow> StorageClass list \<Rightarrow> PodSpec \<Rightarrow> applier \<Rightarrow>
   's \<Rightarrow> 's \<times> applier \<times> error option" where
  "ensureStateful cl x a config storageClasses podSpec0 applier0 s =
     (case app_configureHeadlessService cl x a (name a) (app_annotations x a config) s of
        (s1, Some err) \<Rightarrow>
          (s1, applier0, Some (ErrAnnotate ''creating or updating headless service for %q %q''
             [''stateful'', name a] err))
      | (s1, None) \<Rightarrow>
     (let getRes = StatefulSetGet cl (name a) (namespace a) s1
      in case existsOf getRes of
           Inl getErr \<Rightarrow> (s1, applier0, Some (Trace getErr))
         | Inr exists \<Rightarrow>
     (case app_getStorageUniqPrefix cl x
             (\<lambda>w. map_sum id (\<lambda>ss. Annotations (ssMeta ss)) getRes) s1 of
        (s2, Inl err) \<Rightarrow> (s2, applier0, Some (Trace err))
      | (s2, Inr storageUniqueID) \<Rightarrow>
     (let sset = statefulSetOf x a config podSpec0 exists storageUniqueID
      in case configureStorage x a config storageClasses storageUniqueID
                (handlePVCForStatefulSet x)
                \<lparr>staged = applier0, podSpec = podSpec0, statefulset = sset\<rparr> of
           (l, Some err) \<Rightarrow> (s2, staged l, Some (Trace err))
         | (l, None) \<Rightarrow>
             (let ss = statefulset l;
                  shared = (tplSpec (ssTemplate (ssSpec ss)))
                             \<lparr>Containers := Containers (podSpec l)\<rparr>;
                  final = ss\<lparr>ssSpec := (ssSpec ss)\<lparr>ssTemplate :=
                            (ssTemplate (ssSpec ss))\<lparr>tplSpec := shared\<rparr>\<rparr>\<rparr>
              in (s2, applier_Apply (ResStatefulSet final) (staged l), None))))))"

definition ensureStateless ::
  "'s client \<Rightarrow> ext \<Rightarrow> app \<Rightarrow> ApplicationConfig \<Rightarrow> StorageClass list \<Rightarrow> PodSpec \<Rightarrow> applier \<Rightarrow>
   's \<Rightarrow> 's \<times> applier \<times> error option" where
  "ensureStateless cl x a config storageClasses podSpec0 applier0 s =
     (let getRes = DeploymentGet cl (name a) (namespace a) s
      in case existsOf getRes of
           Inl getErr \<Rightarrow> (s, applier0, Some (Trace getErr))
         | Inr exists \<Rightarrow>
     (case app_getStorageUniqPrefix cl x
             (\<lambda>w. map_sum id (\<lambda>d. Annotations (dMeta d)) getRes) s of
        (s2, Inl err) \<Rightarrow> (s2, applier0, Some (Trace err))
      | (s2, Inr storageUniqueID) \<Rightarrow>
     (let numPods = numPodsOf exists
      in case configureStorage x a config storageClasses storageUniqueID
                (handlePVCForStatelessResource x a)
                \<lparr>staged = applier0, podSpec = podSpec0, statefulset = StatefulSet0\<rparr> of
           (l, Some err) \<Rightarrow> (s2, staged l, Some (Trace err))
         | (l, None) \<Rightarrow>
             (let deployment = \<lparr>dMeta = workloadMeta x a config storageUniqueID,
                    dSpec = \<lparr>dReplicas = numPods,
                      dSelector = app_selectorLabels x a,
                      dTemplate = podTemplate x a config (podSpec l)\<rparr>\<rparr>
              in (s2, applier_Apply (ResDeployment deployment) (staged l), None)))))"

definition ensureDaemon ::
  "'s client \<Rightarrow> ext \<Rightarrow> app \<Rightarrow> ApplicationConfig \<Rightarrow> StorageClass list \<Rightarrow> PodSpec \<Rightarrow> applier \<Rightarrow>
   's \<Rightarrow> 's \<times> applier \<times> error option" where
  "ensureDaemon cl x a config storageClasses podSpec0 applier0 s =
     (case app_getStorageUniqPrefix cl x
             (\<lambda>w. map_sum id (\<lambda>d. Annotations (dsMeta d))
                (DaemonSetGet cl (name a) (namespace a) w)) s of
        (s2, Inl err) \<Rightarrow> (s2, applier0, Some (Trace err))
      | (s2, Inr storageUniqueID) \<Rightarrow>
     (case configureStorage x a config storageClasses storageUniqueID
             (handlePVCForStatelessResource x a)
             \<lparr>staged = applier0, podSpec = podSpec0, statefulset = StatefulSet0\<rparr> of
        (l, Some err) \<Rightarrow> (s2, staged l, Some (Trace err))
      | (l, None) \<Rightarrow>
          (let daemonset = \<lparr>dsMeta = workloadMeta x a config storageUniqueID,
                 dsSpec = \<lparr>dsSelector = app_selectorLabels x a,
                   dsTemplate = podTemplate x a config (podSpec l)\<rparr>,
                 DesiredNumberScheduled = 0\<rparr>
           in (s2, applier_Apply (ResDaemonSet daemonset) (staged l), None))))"

definition ensureSecret :: "ext \<Rightarrow> app \<Rightarrow> ApplicationConfig \<Rightarrow> Secret" where
  "ensureSecret x a config =
     \<lparr>secMeta = ObjectMeta0\<lparr>Name := app_secretName a, Namespace := namespace a,
        Labels := app_labels x a, Annotations := app_annotations x a config\<rparr>,
      Data = [''JUJU_K8S_APPLICATION'' \<mapsto> name a,
              ''JUJU_K8S_MODEL'' \<mapsto> modelUUID a,
              ''JUJU_K8S_APPLICATION_PASSWORD'' \<mapsto> IntroductionSecret config,
              ''JUJU_K8S_CONTROLLER_ADDRESSES'' \<mapsto> ControllerAddresses config,
              ''JUJU_K8S_CONTROLLER_CA_CERT'' \<mapsto> ControllerCertBundle config]\<rparr>"

text \<open>
  \<open>Ensure\<close> up to its last line: the state of the cluster, the mutation batch as it
  stands when \<open>Ensure\<close> returns or reaches \<open>applier.Run\<close>, and the error.
\<close>

definition app_Ensure_stage ::
  "'s client \<Rightarrow> ext \<Rightarrow> app \<Rightarrow> ApplicationConfig \<Rightarrow> 's \<Rightarrow> 's \<times> applier \<times> error option" where
  "app_Ensure_stage cl x a config s =
     (let applier0 = applier_Apply (ResSecret (ensureSecret x a config)) []
      in case app_configureDefaultService cl x a (app_annotations x a config) s of
           (s1, Some err) \<Rightarrow>
             (s1, applier0, Some (ErrAnnotate ''ensuring the default service %q'' [name a] err))
         | (s1, None) \<Rightarrow>
     (case app_applicationPodSpec x a config of
        Inl err \<Rightarrow> (s1, applier0, Some (ErrAnnotate ''generating application podspec'' [] err))
      | Inr podSpec0 \<Rightarrow>
     (case ListStorageClass cl s1 of
        Inl err \<Rightarrow> (s1, applier0, Some (Trace err))
      | Inr storageClasses \<Rightarrow>
     (case deploymentType a of
        DeploymentStateful \<Rightarrow> ensureStateful cl x a config storageClasses podSpec0 applier0 s1
      | DeploymentStateless \<Rightarrow> ensureStateless cl x a config storageClasses podSpec0 applier0 s1
      | DeploymentDaemon \<Rightarrow> ensureDaemon cl x a config storageClasses podSpec0 applier0 s1
      | DeploymentOther v \<Rightarrow>
          (s1, applier0, Some (ErrNotSupported ''unknown deployment type'' []))))))"

definition app_Ensure ::
  "'s client \<Rightarrow> ext \<Rightarrow> app \<Rightarrow> ApplicationConfig \<Rightarrow> 's \<Rightarrow> 's \<times> error option" where
  "app_Ensure cl x a config s =
     (case app_Ensure_stage cl x a config s of
        (s1, applier1, Some err) \<Rightarrow> (s1, Some err)
      | (s1, applier1, None) \<Rightarrow> applier_Run cl applier1 s1)"


section \<open>Notions the properties are stated with\<close>

text \<open>The read of the primary workload of the application's topology, as its metadata.\<close>

definition primaryWorkloadGet :: "'s client \<Rightarrow> app \<Rightarrow> 's \<Rightarrow> error + ObjectMeta" where
  "primaryWorkloadGet cl a s =
     (case deploymentType a of
        DeploymentStateful \<Rightarrow> map_sum id ssMeta (StatefulSetGet cl (name a) (namespace a) s)
      | DeploymentStateless \<Rightarrow> map_sum id dMeta (DeploymentGet cl (name a) (namespace a) s)
      | DeploymentDaemon \<Rightarrow> map_sum id dsMeta (DaemonSetGet cl (name a) (namespace a) s)
      | DeploymentOther v \<Rightarrow> Inl (ErrNotSupported ''unknown deployment type'' []))"

fun isKnownType :: "DeploymentType \<Rightarrow> bool" where
  "isKnownType (DeploymentOther v) = False"
| "isKnownType t = True"

text \<open>The workload object of a staged operation: its kind, metadata, replicas and template.\<close>

fun workloadKind :: "operation \<Rightarrow> DeploymentType option" where
  "workloadKind (OpApply (ResStatefulSet w)) = Some DeploymentStateful"
| "workloadKind (OpApply (ResDeployment w)) = Some DeploymentStateless"
| "workloadKind (OpApply (ResDaemonSet w)) = Some DeploymentDaemon"
| "workloadKind (OpDelete (ResStatefulSet w)) = Some DeploymentStateful"
| "workloadKind (OpDelete (ResDeployment w)) = Some DeploymentStateless"
| "workloadKind (OpDelete (ResDaemonSet w)) = Some DeploymentDaemon"
| "workloadKind op = None"

fun resourceMeta :: "Resource \<Rightarrow> ObjectMeta" where
  "resourceMeta (ResSecret r) = secMeta r"
| "resourceMeta (ResService r) = svcMeta r"
| "resourceMeta (ResStatefulSet r) = ssMeta r"
| "resourceMeta (ResDeployment r) = dMeta r"
| "resourceMeta (ResDaemonSet r) = dsMeta r"
| "resourceMeta (ResPersistentVolumeClaim r) = pvcMeta r"
| "resourceMeta (ResStorageClass r) = scMeta r"

fun operationResource :: "operation \<Rightarrow> Resource" where
  "operationResource (OpApply r) = r"
| "operationResource (OpDelete r) = r"

fun workloadReplicas :: "Resource \<Rightarrow> 32 word option" where
  "workloadReplicas (ResStatefulSet r) = ssReplicas (ssSpec r)"
| "workloadReplicas (ResDeployment r) = dReplicas (dSpec r)"
| "workloadReplicas r = None"

text \<open>
  The replica count of the live workload as a \<open>Get\<close> reads it, and what the frame
  condition on the replica count asks of the mutation batch (which is not among the
  sources): a batch that applies the workload of the application with a nil replica count,
  after operations on other kinds of objects, leaves the replica count of the live
  workload as it is.
\<close>

definition liveReplicas :: "'s client \<Rightarrow> app \<Rightarrow> 's \<Rightarrow> error + 32 word option" where
  "liveReplicas cl a s =
     map_sum id workloadReplicas
       (case deploymentType a of
          DeploymentStateful \<Rightarrow> map_sum id ResStatefulSet (StatefulSetGet cl (name a) (namespace a) s)
        | DeploymentStateless \<Rightarrow> map_sum id ResDeployment (DeploymentGet cl (name a) (namespace a) s)
        | DeploymentDaemon \<Rightarrow> map_sum id ResDaemonSet (DaemonSetGet cl (name a) (namespace a) s)
        | DeploymentOther v \<Rightarrow> Inl (ErrNotSupported ''unknown deployment type'' []))"

definition runKeepsReplicas :: "'s client \<Rightarrow> app \<Rightarrow> bool" where
  "runKeepsReplicas cl a =
     (\<forall>b0 w s s' n.
        list_all (\<lambda>op. workloadKind op = None) b0 \<and>
        workloadKind (OpApply w) = Some (deploymentType a) \<and>
        Name (resourceMeta w) = name a \<and> Namespace (resourceMeta w) = namespace a \<and>
        workloadReplicas w = None \<and>
        liveReplicas cl a s = Inr n \<and>
        applier_Run cl (b0 @ [OpApply w]) s = (s', None)
        \<longrightarrow> liveReplicas cl a s' = Inr n)"

text \<open>
  The Services \<open>Ensure\<close> writes before it reads the workload: the default Service and,
  for a stateful application, the headless Service. The state it returns is the state
  in which \<open>Ensure\<close> reads the workload.
\<close>

definition ensureServices ::
  "'s client \<Rightarrow> ext \<Rightarrow> app \<Rightarrow> ApplicationConfig \<Rightarrow> 's \<Rightarrow> 's \<times> error option" where
  "ensureServices cl x a config s =
     (case app_configureDefaultService cl x a (app_annotations x a config) s of
        (s0, Some err) \<Rightarrow> (s0, Some err)
      | (s0, None) \<Rightarrow>
          (case deploymentType a of
             DeploymentStateful \<Rightarrow>
               app_configureHeadlessService cl x a (name a) (app_annotations x a config) s0
           | _ \<Rightarrow> (s0, None)))"

fun isStorageOperation :: "operation \<Rightarrow> bool" where
  "isStorageOperation (OpApply (ResPersistentVolumeClaim r)) = True"
| "isStorageOperation (OpApply (ResStorageClass r)) = True"
| "isStorageOperation op = False"

text \<open>The batch of \<open>l'\<close> is the batch of \<open>l\<close> with storage objects staged after it.\<close>

definition extendsStaged :: "ensure_vars \<Rightarrow> ensure_vars \<Rightarrow> bool" where
  "extendsStaged l l' = (\<exists>new. staged l' = staged l @ new \<and> list_all isStorageOperation new)"

text \<open>The stateful set of \<open>l'\<close> is the stateful set of \<open>l\<close> but for its claim templates.\<close>

definition sameStatefulSetFrame :: "ensure_vars \<Rightarrow> ensure_vars \<Rightarrow> bool" where
  "sameStatefulSetFrame l l' =
     (ssMeta (statefulset l') = ssMeta (statefulset l) \<and>
      (ssSpec (statefulset l'))\<lparr>VolumeClaimTemplates := []\<rparr>
        = (ssSpec (statefulset l))\<lparr>VolumeClaimTemplates := []\<rparr>)"



text \<open>
  The claim parameters of a filesystem under a storage unique ID, and the name of its
  claim: what \<open>ParseVolumeParams\<close> makes of the volume name suffixed with the ID, for
  a filesystem that is not a plain volume source.
\<close>

definition claimParams ::
  "ext \<Rightarrow> app \<Rightarrow> string \<Rightarrow> KubernetesFilesystemParams \<Rightarrow> VolumeParams option" where
  "claimParams x a uid fs =
     (case ParseQuantity x (showNat (unat (Size fs)) @ ''Mi'') of
        Inl err \<Rightarrow> None
      | Inr fsSize \<Rightarrow>
          (case VolumeSourceForFilesystem x fs of
             Inr None \<Rightarrow>
               (case ParseVolumeParams x (app_volumeName a (StorageName fs) @ ''-'' @ uid) fsSize
                       (Attributes fs) of
                  Inl err \<Rightarrow> None
                | Inr params \<Rightarrow> Some params)
           | _ \<Rightarrow> None))"



text \<open>
  What two calls of \<open>Ensure\<close> are compared by. The replica count of a workload is
  left out of the comparison: the first call stages a count of one, a later call stages
  none. \<open>restages b1 b2\<close>: the batch \<open>b2\<close> holds operations of \<open>b1\<close>, in the order
  of \<open>b1\<close>, and all of them but, possibly, some that apply a storage class.
\<close>

fun eraseReplicas :: "operation \<Rightarrow> operation" where
  "eraseReplicas (OpApply (ResStatefulSet r)) =
     OpApply (ResStatefulSet (r\<lparr>ssSpec := (ssSpec r)\<lparr>ssReplicas := None\<rparr>\<rparr>))"
| "eraseReplicas (OpApply (ResDeployment r)) =
     OpApply (ResDeployment (r\<lparr>dSpec := (dSpec r)\<lparr>dReplicas := None\<rparr>\<rparr>))"
| "eraseReplicas op = op"

fun isStorageClassOperation :: "operation \<Rightarrow> bool" where
  "isStorageClassOperation (OpApply (ResStorageClass r)) = True"
| "isStorageClassOperation op = False"

definition stagedContent :: "applier \<Rightarrow> operation list" where
  "stagedContent ops = map eraseReplicas (filter (\<lambda>op. \<not> isStorageClassOperation op) ops)"

definition restages :: "applier \<Rightarrow> applier \<Rightarrow> bool" where
  "restages b1 b2 =
     (subseq (map eraseReplicas b2) (map eraseReplicas b1) \<and>
      stagedContent b2 = stagedContent b1)"

text \<open>The variables of two calls of \<open>Ensure\<close> agree, the batches as above.\<close>

definition sameButReplicas :: "ensure_vars \<Rightarrow> ensure_vars \<Rightarrow> bool" where
  "sameButReplicas l1 l2 =
     (podSpec l1 = podSpec l2 \<and>
      eraseReplicas (OpApply (ResStatefulSet (statefulset l1)))
        = eraseReplicas (OpApply (ResStatefulSet (statefulset l2))) \<and>
      restages (staged l1) (staged l2))"

text \<open>The two claim handlers \<open>Ensure\<close> passes to \<open>configureStorage\<close>.\<close>

definition isEnsureClaimHandler :: "ext \<Rightarrow> app \<Rightarrow> ensure_vars handlePVCFunc \<Rightarrow> bool" where
  "isEnsureClaimHandler x a h =
     (h = handlePVCForStatefulSet x \<or> h = handlePVCForStatelessResource x a)"

text \<open>The names of the storage classes a batch applies.\<close>

fun appliedClassNames :: "operation \<Rightarrow> string list" where
  "appliedClassNames (OpApply (ResStorageClass c)) = [Name (scMeta c)]"
| "appliedClassNames op = []"

definition stagedClassNames :: "applier \<Rightarrow> string set" where
  "stagedClassNames b = set (concat (map appliedClassNames b))"

text \<open>
  The storage class names of a filesystem keep apart from a set \<open>N\<close> of class names
  (the classes an earlier call made): the class name its claim is configured with is not
  in \<open>N\<close>, and if the namespace-qualified name is in \<open>N\<close>, it is the name of the
  class that would be made for this filesystem.
\<close>

definition classesApart ::
  "ext \<Rightarrow> app \<Rightarrow> string \<Rightarrow> string set \<Rightarrow> KubernetesFilesystemParams \<Rightarrow> bool" where
  "classesApart x a uid N fs =
     (case claimParams x a uid fs of
        None \<Rightarrow> True
      | Some params \<Rightarrow>
          vpStorageClass params \<notin> N \<and>
          (QualifiedStorageClassName x (namespace a) (vpStorageClass params) \<in> N \<longrightarrow>
             Name (scMeta (StorageClassSpec x
               (StorageProvisioner x (namespace a) (modelName a) params) (legacyLabels a)))
             = QualifiedStorageClassName x (namespace a) (vpStorageClass params)))"

text \<open>
  The storage class map \<open>m2\<close> of a later call against the map \<open>m1\<close> of an earlier
  one: it has the classes of \<open>m1\<close> and, beyond them, only classes named in \<open>N\<close>.
\<close>

definition classMapGrown ::
  "string set \<Rightarrow> (string \<rightharpoonup> StorageClass) \<Rightarrow> (string \<rightharpoonup> StorageClass) \<Rightarrow> bool" where
  "classMapGrown N m1 m2 =
     ((\<forall>k. m1 k \<noteq> None \<longrightarrow> m2 k \<noteq> None) \<and> (\<forall>k. m2 k \<noteq> None \<longrightarrow> m1 k \<noteq> None \<or> k \<in> N))"

text \<open>
  What is asked of \<open>sort.Slice\<close> where two calls are compared: it returns the
  containers it is given, sorted by name.
\<close>

definition sortsContainers :: "ext \<Rightarrow> bool" where
  "sortsContainers x =
     (\<forall>cs. mset (SortSlice x (\<lambda>ci cj. ccName ci < ccName cj) cs) = mset cs \<and>
           sorted (map ccName (SortSlice x (\<lambda>ci cj. ccName ci < ccName cj) cs)))"

text \<open>
  A server that hands out a pod list in pages: asked with the token \<open>tok\<close> it answers
  with the first page; every page but the last reports remaining items and carries the
  token of the next page, the last page reports none.
\<close>

fun servesPages ::
  "'s client \<Rightarrow> string \<Rightarrow> string \<Rightarrow> 's \<Rightarrow> string \<Rightarrow> PodList list \<Rightarrow> bool" where
  "servesPages cl ns selector s tok [] = False"
| "servesPages cl ns selector s tok [p] =
     (PodsList cl ns selector tok s = Inr p \<and>
      (RemainingItemCount p = None \<or> RemainingItemCount p = Some 0))"
| "servesPages cl ns selector s tok (p # q # rest) =
     (PodsList cl ns selector tok s = Inr p \<and>
      RemainingItemCount p \<noteq> None \<and> RemainingItemCount p \<noteq> Some 0 \<and>
      servesPages cl ns selector s (Continue p) (q # rest))"

definition podNames :: "PodList list \<Rightarrow> string list" where
  "podNames pages = concat (map (\<lambda>p. map podName (Items p)) pages)"

section \<open>A cluster in memory\<close>

text \<open>
  A small cluster to run the operations on concrete inputs: the objects by namespace and
  name, the pages of the pod list by continue token, a supply of prefixes for
  \<open>randomPrefix\<close>, and an error the read of a Service can be made to fail with.
\<close>

type_synonym key = "string \<times> string"

record cluster =
  memSecrets :: "key \<rightharpoonup> Secret"
  memServices :: "key \<rightharpoonup> Service"
  memStatefulSets :: "key \<rightharpoonup> StatefulSet"
  memDeployments :: "key \<rightharpoonup> Deployment"
  memDaemonSets :: "key \<rightharpoonup> DaemonSet"
  memClaims :: "key \<rightharpoonup> PersistentVolumeClaim"
  memStorageClasses :: "StorageClass list"
  memPodPages :: "string \<rightharpoonup> PodList"
  memPrefixes :: "string list"
  memServiceGetFault :: "error option"

definition cluster0 :: cluster where
  "cluster0 = \<lparr>memSecrets = Map.empty, memServices = Map.empty, memStatefulSets = Map.empty,
     memDeployments = Map.empty, memDaemonSets = Map.empty, memClaims = Map.empty,
     memStorageClasses = [], memPodPages = Map.empty, memPrefixes = [], memServiceGetFault = None\<rparr>"

definition memGet :: "string \<Rightarrow> (key \<rightharpoonup> 'a) \<Rightarrow> string \<Rightarrow> string \<Rightarrow> error + 'a" where
  "memGet kind objs nm ns =
     (case objs (ns, nm) of None \<Rightarrow> Inl (ErrNotFound ''%s %q'' [kind, nm]) | Some v \<Rightarrow> Inr v)"

definition metaKey :: "ObjectMeta \<Rightarrow> key" where
  "metaKey m = (Namespace m, Name m)"

definition putStorageClass :: "StorageClass \<Rightarrow> StorageClass list \<Rightarrow> StorageClass list" where
  "putStorageClass sc scs =
     (if Name (scMeta sc) \<in> set (map (\<lambda>c. Name (scMeta c)) scs)
      then map (\<lambda>c. if Name (scMeta c) = Name (scMeta sc) then sc else c) scs
      else scs @ [sc])"

text \<open>
  Modelled from the spec: the mutation batch (\<open>resources.Applier\<close>, not among the
  sources) executes its operations in order; an applied resource is created or
  updated, and a delete tolerates an object that is not there. An update of a stateful
  set or a deployment whose replica count is nil leaves the replica count of the live
  object as it is (only created objects get an explicit initial replica count).
\<close>

definition keepLiveReplicas :: "'n option \<Rightarrow> 'n option \<Rightarrow> 'n option" where
  "keepLiveReplicas stagedCount liveCount =
     (case stagedCount of None \<Rightarrow> liveCount | Some n \<Rightarrow> Some n)"

fun memOperation :: "operation \<Rightarrow> cluster \<Rightarrow> cluster" where
  "memOperation (OpApply (ResSecret r)) c = c\<lparr>memSecrets := (memSecrets c)(metaKey (secMeta r) \<mapsto> r)\<rparr>"
| "memOperation (OpApply (ResService r)) c = c\<lparr>memServices := (memServices c)(metaKey (svcMeta r) \<mapsto> r)\<rparr>"
| "memOperation (OpApply (ResStatefulSet r)) c =
     c\<lparr>memStatefulSets := (memStatefulSets c)(metaKey (ssMeta r) \<mapsto>
        (case memStatefulSets c (metaKey (ssMeta r)) of
           None \<Rightarrow> r
         | Some live \<Rightarrow> r\<lparr>ssSpec := (ssSpec r)\<lparr>ssReplicas :=
             keepLiveReplicas (ssReplicas (ssSpec r)) (ssReplicas (ssSpec live))\<rparr>\<rparr>))\<rparr>"
| "memOperation (OpApply (ResDeployment r)) c =
     c\<lparr>memDeployments := (memDeployments c)(metaKey (dMeta r) \<mapsto>
        (case memDeployments c (metaKey (dMeta r)) of
           None \<Rightarrow> r
         | Some live \<Rightarrow> r\<lparr>dSpec := (dSpec r)\<lparr>dReplicas :=
             keepLiveReplicas (dReplicas (dSpec r)) (dReplicas (dSpec live))\<rparr>\<rparr>))\<rparr>"
| "memOperation (OpApply (ResDaemonSet r)) c =
     c\<lparr>memDaemonSets := (memDaemonSets c)(metaKey (dsMeta r) \<mapsto> r)\<rparr>"
| "memOperation (OpApply (ResPersistentVolumeClaim r)) c =
     c\<lparr>memClaims := (memClaims c)(metaKey (pvcMeta r) \<mapsto> r)\<rparr>"
| "memOperation (OpApply (ResStorageClass r)) c =
     c\<lparr>memStorageClasses := putStorageClass r (memStorageClasses c)\<rparr>"
| "memOperation (OpDelete (ResSecret r)) c = c\<lparr>memSecrets := (memSecrets c)(metaKey (secMeta r) := None)\<rparr>"
| "memOperation (OpDelete (ResService r)) c =
     c\<lparr>memServices := (memServices c)(metaKey (svcMeta r) := None)\<rparr>"
| "memOperation (OpDelete (ResStatefulSet r)) c =
     c\<lparr>memStatefulSets := (memStatefulSets c)(metaKey (ssMeta r) := None)\<rparr>"
| "memOperation (OpDelete (ResDeployment r)) c =
     c\<lparr>memDeployments := (memDeployments c)(metaKey (dMeta r) := None)\<rparr>"
| "memOperation (OpDelete (ResDaemonSet r)) c =
     c\<lparr>memDaemonSets := (memDaemonSets c)(metaKey (dsMeta r) := None)\<rparr>"
| "memOperation (OpDelete (ResPersistentVolumeClaim r)) c =
     c\<lparr>memClaims := (memClaims c)(metaKey (pvcMeta r) := None)\<rparr>"
| "memOperation (OpDelete (ResStorageClass r)) c =
     c\<lparr>memStorageClasses := filter (\<lambda>k. Name (scMeta k) \<noteq> Name (scMeta r)) (memStorageClasses c)\<rparr>"

definition memRun :: "applier \<Rightarrow> cluster \<Rightarrow> cluster \<times> error option" where
  "memRun ops c = (foldl (\<lambda>k op. memOperation op k) c ops, None)"

definition memRandomPrefix :: "cluster \<Rightarrow> cluster \<times> (error + string)" where
  "memRandomPrefix c =
     (case memPrefixes c of
        [] \<Rightarrow> (c, Inl (ErrErrorf ''no random prefix'' []))
      | p # ps \<Rightarrow> (c\<lparr>memPrefixes := ps\<rparr>, Inr p))"

definition memClient :: "cluster client" where
  "memClient =
     \<lparr>SecretGet = (\<lambda>nm ns c. memGet ''secret'' (memSecrets c) nm ns),
      ServiceGet = (\<lambda>nm ns c.
        case memServiceGetFault c of Some err \<Rightarrow> Inl err
        | None \<Rightarrow> memGet ''service'' (memServices c) nm ns),
      ServiceApply = (\<lambda>svc c. (memOperation (OpApply (ResService svc)) c, None)),
      StatefulSetGet = (\<lambda>nm ns c. memGet ''statefulset'' (memStatefulSets c) nm ns),
      DeploymentGet = (\<lambda>nm ns c. memGet ''deployment'' (memDeployments c) nm ns),
      DaemonSetGet = (\<lambda>nm ns c. memGet ''daemonset'' (memDaemonSets c) nm ns),
      ListStorageClass = (\<lambda>c. Inr (memStorageClasses c)),
      PodsList = (\<lambda>ns selector tok c.
        case memPodPages c tok of
          None \<Rightarrow> Inl (ErrErrorf ''unknown continue token %q'' [tok])
        | Some page \<Rightarrow> Inr page),
      applier_Run = memRun,
      randomPrefix = memRandomPrefix\<rparr>"


section \<open>Helpers to run the operations with\<close>

text \<open>
  Modelled from the spec: the helpers of the packages \<open>k8sutils\<close>, \<open>constants\<close>
  and \<open>storage\<close> (not among the sources), to run the operations on concrete inputs.
  The spec gives the volume name \<open>app-storageName\<close>, a claim name suffixed with the
  storage-unique prefix, a namespace-qualified storage class name and a new class derived
  from the claim parameters; here the qualified name is \<open>namespace-name\<close>, a new class
  is named by its qualified name, labels and annotations are keyed by the application or
  storage name, and a volume list takes one volume per name.
\<close>

definition qualifiedName :: "string \<Rightarrow> string \<Rightarrow> string" where
  "qualifiedName ns c = (if ns = [] then c else ns @ ''-'' @ c)"

definition pushUnique :: "('a \<Rightarrow> string) \<Rightarrow> 'a list \<Rightarrow> 'a \<Rightarrow> error + 'a list" where
  "pushUnique nameOf xs v =
     (case find (\<lambda>w. nameOf w = nameOf v) xs of
        None \<Rightarrow> Inr (xs @ [v])
      | Some w \<Rightarrow> if w = v then Inr xs else Inl (ErrNotValid ''duplicated volume %q'' [nameOf v]))"

definition defaultMountPath :: "nat \<Rightarrow> string \<Rightarrow> KubernetesFilesystemParams \<Rightarrow> string" where
  "defaultMountPath idx appName fs =
     (case Attachment fs of
        Some at \<Rightarrow>
          if Path at \<noteq> [] then Path at
          else ''/var/lib/juju/storage/'' @ StorageName fs @ ''/'' @ showNat idx
      | None \<Rightarrow> ''/var/lib/juju/storage/'' @ StorageName fs @ ''/'' @ showNat idx)"

text \<open>
  \<open>sort.Slice\<close> of Go's library on a slice of a few elements is an insertion sort: each
  element in turn moves to the left as long as it is less than its left neighbour.
  \<open>shiftLeft\<close> works on the sorted part in reverse.
\<close>

fun shiftLeft :: "('a \<Rightarrow> 'a \<Rightarrow> bool) \<Rightarrow> 'a \<Rightarrow> 'a list \<Rightarrow> 'a list" where
  "shiftLeft lt v [] = [v]"
| "shiftLeft lt v (w # ws) = (if lt v w then w # shiftLeft lt v ws else v # w # ws)"

definition insertionSort :: "('a \<Rightarrow> 'a \<Rightarrow> bool) \<Rightarrow> 'a list \<Rightarrow> 'a list" where
  "insertionSort lt vs = rev (foldl (\<lambda>acc v. shiftLeft lt v acc) [] vs)"

definition ext0 :: ext where
  "ext0 =
     \<lparr>LabelsForApp = (\<lambda>nm legacy.
        if legacy then [''juju-app'' \<mapsto> nm] else [''app.kubernetes.io/name'' \<mapsto> nm]),
      SelectorLabelsForApp = (\<lambda>nm legacy.
        if legacy then [''juju-app'' \<mapsto> nm] else [''app.kubernetes.io/name'' \<mapsto> nm]),
      LabelsToSelector = (\<lambda>m.
        case m ''app.kubernetes.io/name'' of
          Some v \<Rightarrow> ''app.kubernetes.io/name='' @ v
        | None \<Rightarrow> (case m ''juju-app'' of Some v \<Rightarrow> ''juju-app='' @ v | None \<Rightarrow> [])),
      ResourceTagsToAnnotations = (\<lambda>tags legacy. tags),
      AnnotationsForVersion = (\<lambda>v legacy.
        if legacy then [''juju-version'' \<mapsto> v] else [''juju.is/version'' \<mapsto> v]),
      AnnotationKeyApplicationUUID = (\<lambda>legacy.
        if legacy then ''juju-app-uuid'' else ''app.juju.is/uuid''),
      AnnotationsForStorage = (\<lambda>nm legacy.
        if legacy then [''juju-storage'' \<mapsto> nm] else [''storage.juju.is/name'' \<mapsto> nm]),
      LabelsForStorage = (\<lambda>nm legacy.
        if legacy then [''juju-storage'' \<mapsto> nm] else [''storage.juju.is/name'' \<mapsto> nm]),
      LabelsJuju = [''app.kubernetes.io/managed-by'' \<mapsto> ''juju''],
      LabelsMerge = (\<lambda>a b. a ++ b),
      DataDir = ''/var/lib/juju'',
      EnvAgentHTTPProbePort = ''HTTP_PROBE_PORT'',
      AgentHTTPProbePort = ''3856'',
      AgentHTTPPathLiveness = ''/liveness'',
      AgentHTTPPathReadiness = ''/readiness'',
      AgentHTTPPathStartup = ''/startup'',
      NormaliseArch = (\<lambda>r. r),
      AMD64 = ''amd64'',
      ARM64 = ''arm64'',
      PPC64EL = ''ppc64el'',
      S390X = ''s390x'',
      ParseQuantity = (\<lambda>str. Inr (ParsedQuantity str)),
      VolumeSourceForFilesystem = (\<lambda>fs.
        case Attributes fs ''storage-medium'' of
          Some m \<Rightarrow> Inr (Some (OtherVolumeSource m))
        | None \<Rightarrow> Inr None),
      ParseVolumeParams = (\<lambda>nm size attrs.
        Inr \<lparr>vpName = nm, vpSize = size,
             vpStorageClass = (case attrs ''storage-class'' of Some c \<Rightarrow> c | None \<Rightarrow> []),
             vpStorageProvisioner =
               (case attrs ''storage-provisioner'' of Some c \<Rightarrow> c | None \<Rightarrow> []),
             vpParameters = Map.empty\<rparr>),
      QualifiedStorageClassName = qualifiedName,
      StorageProvisioner = (\<lambda>ns model params.
        \<lparr>provName = vpStorageClass params, provNamespace = ns, provModel = model,
         provProvisioner = vpStorageProvisioner params, provParameters = vpParameters params\<rparr>),
      StorageClassSpec = (\<lambda>sp legacy.
        \<lparr>scMeta = ObjectMeta0\<lparr>Name := qualifiedName (provNamespace sp) (provName sp)\<rparr>,
         Provisioner = provProvisioner sp, Parameters = provParameters sp,
         ReclaimPolicy = []\<rparr>),
      PersistentVolumeClaimSpecOf = (\<lambda>params.
        \<lparr>StorageClassName = Some (vpStorageClass params), pvcRequest = vpSize params,
         AccessModes = [''ReadWriteOnce'']\<rparr>),
      GetMountPathForFilesystem = defaultMountPath,
      PushUniqueVolume = (\<lambda>vols v allowOverride. pushUnique volName vols v),
      PushUniqueVolumeClaimTemplate = (\<lambda>tpls pvc. pushUnique (\<lambda>c. Name (pvcMeta c)) tpls pvc),
      SortSlice = insertionSort\<rparr>"

definition app0 :: "DeploymentType \<Rightarrow> app" where
  "app0 t = \<lparr>name = ''db'', namespace = ''ns'', modelUUID = ''uuid'', modelName = ''model'',
     legacyLabels = False, deploymentType = t\<rparr>"

definition filesystem0 :: "string \<Rightarrow> string \<Rightarrow> KubernetesFilesystemParams" where
  "filesystem0 nm cls = \<lparr>StorageName = nm, Size = 1024,
     Attributes = [''storage-class'' \<mapsto> cls], fsResourceTags = Map.empty, Attachment = None\<rparr>"

definition config0 :: "KubernetesFilesystemParams list \<Rightarrow> ApplicationConfig" where
  "config0 fss = \<lparr>IntroductionSecret = ''secret'', ControllerAddresses = ''10.0.0.1:17070'',
     ControllerCertBundle = ''cert'', AgentVersion = ''2.9.0'',
     AgentImagePath = ''jujusolutions/jujud-operator:2.9.0'',
     CharmBaseImage = ''jujusolutions/charm-base:ubuntu-20.04'', CharmModifiedVersion = 1,
     ConfigContainers = [], Filesystems = fss, ResourceTags = Map.empty,
     ConfigConstraints = \<lparr>CpuPower = None, Mem = None, Arch = None\<rparr>\<rparr>"


section \<open>Sample clusters and objects\<close>

definition pagedCluster :: cluster where
  "pagedCluster = cluster0\<lparr>
     memDaemonSets := [(''ns'', ''db'') \<mapsto> DaemonSet0\<lparr>DesiredNumberScheduled := 3\<rparr>],
     memPodPages :=
       [[] \<mapsto> \<lparr>Items = [\<lparr>podName = ''db-c''\<rparr>, \<lparr>podName = ''db-a''\<rparr>],
                 RemainingItemCount = Some 1, Continue = ''page2''\<rparr>,
        ''page2'' \<mapsto> \<lparr>Items = [\<lparr>podName = ''db-b''\<rparr>],
                 RemainingItemCount = None, Continue = []\<rparr>]\<rparr>"

definition pagedPages :: "PodList list" where
  "pagedPages =
     [\<lparr>Items = [\<lparr>podName = ''db-c''\<rparr>, \<lparr>podName = ''db-a''\<rparr>],
       RemainingItemCount = Some 1, Continue = ''page2''\<rparr>,
      \<lparr>Items = [\<lparr>podName = ''db-b''\<rparr>], RemainingItemCount = None, Continue = []\<rparr>]"

definition sampleClass :: "string \<Rightarrow> StorageClass" where
  "sampleClass nm = \<lparr>scMeta = ObjectMeta0\<lparr>Name := nm\<rparr>, Provisioner = ''kubernetes.io/no-provisioner'',
     Parameters = Map.empty, ReclaimPolicy = []\<rparr>"

definition missingReplicasCluster :: cluster where
  "missingReplicasCluster = cluster0\<lparr>
     memStatefulSets := [(''ns'', ''db'') \<mapsto> StatefulSet0],
     memDeployments := [(''ns'', ''db'') \<mapsto> Deployment0]\<rparr>"

definition scaledCluster :: cluster where
  "scaledCluster = pagedCluster\<lparr>
     memStatefulSets := [(''ns'', ''db'') \<mapsto>
       StatefulSet0\<lparr>ssSpec := (ssSpec StatefulSet0)\<lparr>ssReplicas := Some 2\<rparr>\<rparr>],
     memDeployments := [(''ns'', ''db'') \<mapsto>
       Deployment0\<lparr>dSpec := (dSpec Deployment0)\<lparr>dReplicas := Some 4\<rparr>\<rparr>],
     memDaemonSets := [(''ns'', ''db'') \<mapsto> DaemonSet0\<lparr>DesiredNumberScheduled := 5\<rparr>]\<rparr>"

definition freshCluster :: cluster where
  "freshCluster = cluster0\<lparr>memPrefixes := [''abcd'']\<rparr>"

definition liveCluster :: cluster where
  "liveCluster = cluster0\<lparr>
     memServices := [(''ns'', ''db'') \<mapsto> Service0],
     memDeployments := [(''ns'', ''db'') \<mapsto> Deployment0\<lparr>
       dMeta := ObjectMeta0\<lparr>Name := ''db'', Namespace := ''ns'',
         Annotations := [''app.juju.is/uuid'' \<mapsto> ''abcd'']\<rparr>,
       dSpec := \<lparr>dReplicas = Some 3, dSelector = Map.empty, dTemplate = PodTemplateSpec0\<rparr>\<rparr>],
     memPrefixes := [''wxyz'']\<rparr>"




definition duplicateConfig :: ApplicationConfig where
  "duplicateConfig = config0 [filesystem0 ''data'' ''fast'', filesystem0 ''data'' ''fast'']"

definition collidingConfig :: ApplicationConfig where
  "collidingConfig = config0 [filesystem0 ''a'' ''ns-fast'', filesystem0 ''b'' ''fast'']"

text \<open>The cluster after a first \<open>Ensure\<close> of the stateless sample application.\<close>

definition ensuredCluster :: "ApplicationConfig \<Rightarrow> cluster" where
  "ensuredCluster config =
     fst (app_Ensure memClient ext0 (app0 DeploymentStateless) config freshCluster)"

section \<open>Evaluation on the cluster in memory\<close>

lemmas mem_simps = memClient_def memGet_def app0_def cluster0_def app_secretName_def

lemma State_pagedCluster:
  "app_State memClient ext0 (app0 DeploymentDaemon) pagedCluster
     = Some (\<lparr>DesiredReplicas = 3, Replicas = [''db-a'', ''db-b'', ''db-c'']\<rparr>, None)"
  by (simp add: app_State_def desiredReplicas_def listReplicas.simps pagedCluster_def mem_simps
      DaemonSet0_def)

lemmas ensure_eval =
  app_Ensure_def app_Ensure_stage_def ensureStateless_def ensureStateful_def ensureDaemon_def
  ensureServices_def primaryWorkloadGet_def
  configureStorage_def app_configureStorage_def configureFilesystem_def
  volumeStep_def storageClassStep_def claimStep_def mountStep_def
  app_filesystemToVolumeInfo_def app_getStorageUniqPrefix_def existsOf_def numPodsOf_def
  app_configureDefaultService_def app_configureHeadlessService_def defaultService_def
  headlessService_def
  NewService_def NewPersistentVolumeClaim_def setNameNamespace_def
  app_applicationPodSpec_def nodeSelectorFor_def HasArch_def
  handleVolume_def handleVolumeMount_def handlePVCForStatelessResource_def
  handlePVCForStatefulSet_def handleStorageClass_def applier_Apply_def
  storageClassMapOf_def app_volumeName_def Trace_def Let_def
  memClient_def memGet_def memRandomPrefix_def memRun_def metaKey_def
  app0_def config0_def filesystem0_def cluster0_def ObjectMeta0_def ServiceSpec0_def
  statefulSetOf_def workloadMeta_def charmVolumeName_def unitContainerName_def
  ext0_def pushUnique_def qualifiedName_def Annotation_Add_def insertionSort_def
  keepLiveReplicas_def

lemma pair_of_snd_None: "snd p = None \<Longrightarrow> p = (fst p, None)"
  by (cases p) simp

lemma triple_of_snd_None: "snd (snd p) = None \<Longrightarrow> p = (fst p, fst (snd p), None)"
  by (cases p) auto

lemma services_fresh:
  "snd (ensureServices memClient ext0 (app0 DeploymentStateless) (config0 fss) freshCluster) = None"
  by (simp add: ensure_eval freshCluster_def)

lemma services_live:
  "snd (ensureServices memClient ext0 (app0 DeploymentStateless) (config0 fss) liveCluster) = None"
  by (simp add: ensure_eval liveCluster_def)

lemma stage_fresh:
  "snd (snd (app_Ensure_stage memClient ext0 (app0 DeploymentStateless)
     (config0 [filesystem0 ''data'' ''fast'']) freshCluster)) = None"
  by (simp add: ensure_eval freshCluster_def)

lemma stage_live:
  "snd (snd (app_Ensure_stage memClient ext0 (app0 DeploymentStateless)
     (config0 [filesystem0 ''data'' ''fast'']) liveCluster)) = None"
  by (simp add: ensure_eval liveCluster_def)

lemma get_fresh:
  "primaryWorkloadGet memClient (app0 DeploymentStateless)
     (fst (ensureServices memClient ext0 (app0 DeploymentStateless) (config0 fss) freshCluster))
   = Inl (ErrNotFound ''%s %q'' [''deployment'', ''db''])"
  by (simp add: ensure_eval freshCluster_def)

lemma get_live:
  "primaryWorkloadGet memClient (app0 DeploymentStateless)
     (fst (ensureServices memClient ext0 (app0 DeploymentStateless) (config0 fss) liveCluster))
   = Inr (ObjectMeta0\<lparr>Name := ''db'', Namespace := ''ns'',
         Annotations := [''app.juju.is/uuid'' \<mapsto> ''abcd'']\<rparr>)"
  by (simp add: ensure_eval liveCluster_def Deployment0_def)

section \<open>The default Service\<close>

lemma def_svc_name: "Name (svcMeta (defaultService x a ann)) = name a"
  and def_svc_ns: "Namespace (svcMeta (defaultService x a ann)) = namespace a"
  by (simp_all add: defaultService_def NewService_def setNameNamespace_def)

text \<open>
  Claim C10. \<open>configureDefaultService\<close> writes the default Service only when its
  \<open>Get\<close> answers not-found; if the Service exists nothing is written and the result is
  nil; any other error of the \<open>Get\<close> is the result. The Service it creates is named
  after the application, of type ClusterIP, selected by the selector labels, with the one
  port \<open>placeholder\<close>, 65535.
\<close>

theorem configureDefaultService_create_once:
  "app_configureDefaultService cl x a annotation s =
     (case ServiceGet cl (name a) (namespace a) s of
        Inr found \<Rightarrow> (s, None)
      | Inl err \<Rightarrow>
          if IsNotFound err then ServiceApply cl (defaultService x a annotation) s
          else (s, Some err))
   \<and> Name (svcMeta (defaultService x a annotation)) = name a
   \<and> Namespace (svcMeta (defaultService x a annotation)) = namespace a
   \<and> svcType (svcSpec (defaultService x a annotation)) = ''ClusterIP''
   \<and> svcSelector (svcSpec (defaultService x a annotation)) = app_selectorLabels x a
   \<and> map (\<lambda>p. (spName p, spPort p)) (svcPorts (svcSpec (defaultService x a annotation)))
       = [(''placeholder'', 65535)]"
proof -
  have run: "app_configureDefaultService cl x a annotation s =
     (case ServiceGet cl (name a) (namespace a) s of
        Inr found \<Rightarrow> (s, None)
      | Inl err \<Rightarrow>
          if IsNotFound err then ServiceApply cl (defaultService x a annotation) s
          else (s, Some err))"
    unfolding app_configureDefaultService_def Let_def def_svc_name def_svc_ns Trace_def
    by (cases "ServiceGet cl (name a) (namespace a) s") simp_all
  have shape: "svcType (svcSpec (defaultService x a annotation)) = ''ClusterIP''"
    "svcSelector (svcSpec (defaultService x a annotation)) = app_selectorLabels x a"
    "map (\<lambda>p. (spName p, spPort p)) (svcPorts (svcSpec (defaultService x a annotation)))
       = [(''placeholder'', 65535)]"
    by (simp_all add: defaultService_def NewService_def ServiceSpec0_def ServiceTypeClusterIP_def)
  from run shape show ?thesis
    by (simp only: def_svc_name def_svc_ns simp_thms)
qed

section \<open>Exists\<close>

lemmas exists_defs = app_Exists_def primaryWorkloadGet_def app_statefulSetExists_def
        app_deploymentExists_def app_daemonSetExists_def app_secretExists_def
        app_serviceExists_def existsResult_def DeploymentState0_def Trace_def

text \<open>
  Claim C5. \<open>Exists\<close> checks the primary workload, then the Secret, then the default
  Service, and not-found is absence. When only the Secret exists and it carries no deletion
  timestamp, the result is exists and not terminating. When the primary workload exists and
  carries a deletion timestamp, the result is exists and terminating whatever the Secret
  and the Service are (their reads may even fail). The Service is read third: when the
  workload and the Secret are absent (or the Secret is there and not terminating), a
  Service that is there makes the result exist, terminating as the Service is, an absent
  Service leaves the result as it stands, and an error of its read is the result. The
  order shows in the errors too: an error of the workload read is the result whatever
  follows, and an error of the Secret read is the result when the workload is absent.
\<close>

theorem Exists_aggregation:
  assumes "isKnownType (deploymentType a)"
  shows "(primaryWorkloadGet cl a s = Inl e1 \<and> IsNotFound e1 \<and>
          SecretGet cl (app_secretName a) (namespace a) s = Inr sec \<and>
          DeletionTimestamp (secMeta sec) = None \<and>
          ServiceGet cl (name a) (namespace a) s = Inl e2 \<and> IsNotFound e2
          \<longrightarrow> app_Exists cl a s = (\<lparr>Exists = True, Terminating = False\<rparr>, None))
       \<and> (primaryWorkloadGet cl a s = Inr m \<and> DeletionTimestamp m \<noteq> None
          \<longrightarrow> app_Exists cl a s = (\<lparr>Exists = True, Terminating = True\<rparr>, None))
       \<and> (primaryWorkloadGet cl a s = Inl e1 \<and> \<not> IsNotFound e1
          \<longrightarrow> (\<exists>l. app_Exists cl a s = (DeploymentState0, Some (ErrAnnotate ''%s resource check'' [l] e1))))
       \<and> (primaryWorkloadGet cl a s = Inl e1 \<and> IsNotFound e1 \<and>
          SecretGet cl (app_secretName a) (namespace a) s = Inl e2 \<and> \<not> IsNotFound e2
          \<longrightarrow> app_Exists cl a s =
                (DeploymentState0, Some (ErrAnnotate ''%s resource check'' [''secret''] e2)))
       \<and> (primaryWorkloadGet cl a s = Inl e1 \<and> IsNotFound e1 \<and>
          SecretGet cl (app_secretName a) (namespace a) s = Inl e2 \<and> IsNotFound e2 \<and>
          ServiceGet cl (name a) (namespace a) s = Inr svc
          \<longrightarrow> app_Exists cl a s =
                (\<lparr>Exists = True, Terminating = (DeletionTimestamp (svcMeta svc) \<noteq> None)\<rparr>, None))
       \<and> (primaryWorkloadGet cl a s = Inl e1 \<and> IsNotFound e1 \<and>
          SecretGet cl (app_secretName a) (namespace a) s = Inl e2 \<and> IsNotFound e2 \<and>
          ServiceGet cl (name a) (namespace a) s = Inl e3 \<and> IsNotFound e3
          \<longrightarrow> app_Exists cl a s = (\<lparr>Exists = False, Terminating = False\<rparr>, None))
       \<and> (primaryWorkloadGet cl a s = Inl e1 \<and> IsNotFound e1 \<and>
          SecretGet cl (app_secretName a) (namespace a) s = Inl e2 \<and> IsNotFound e2 \<and>
          ServiceGet cl (name a) (namespace a) s = Inl e3 \<and> \<not> IsNotFound e3
          \<longrightarrow> app_Exists cl a s =
                (DeploymentState0, Some (ErrAnnotate ''%s resource check'' [''service''] e3)))
       \<and> (primaryWorkloadGet cl a s = Inl e1 \<and> IsNotFound e1 \<and>
          SecretGet cl (app_secretName a) (namespace a) s = Inr sec \<and>
          DeletionTimestamp (secMeta sec) = None \<and>
          ServiceGet cl (name a) (namespace a) s = Inr svc
          \<longrightarrow> app_Exists cl a s =
                (\<lparr>Exists = True, Terminating = (DeletionTimestamp (svcMeta svc) \<noteq> None)\<rparr>, None))
       \<and> (primaryWorkloadGet cl a s = Inl e1 \<and> IsNotFound e1 \<and>
          SecretGet cl (app_secretName a) (namespace a) s = Inr sec \<and>
          DeletionTimestamp (secMeta sec) = None \<and>
          ServiceGet cl (name a) (namespace a) s = Inl e3 \<and> \<not> IsNotFound e3
          \<longrightarrow> app_Exists cl a s =
                (DeploymentState0, Some (ErrAnnotate ''%s resource check'' [''service''] e3)))
       \<and> (primaryWorkloadGet cl a s = Inl e1 \<and> IsNotFound e1 \<and>
          SecretGet cl (app_secretName a) (namespace a) s = Inr sec \<and>
          DeletionTimestamp (secMeta sec) \<noteq> None
          \<longrightarrow> app_Exists cl a s = (\<lparr>Exists = True, Terminating = True\<rparr>, None))
       \<and> (primaryWorkloadGet cl a s = Inr m \<and> DeletionTimestamp m = None
          \<longrightarrow> app_Exists cl a s =
                runChecks
                  [\<lparr>label = ''secret'', check = app_secretExists cl a, forceTerminating = False\<rparr>,
                   \<lparr>label = ''service'', check = app_serviceExists cl a, forceTerminating = False\<rparr>]
                  \<lparr>Exists = True, Terminating = False\<rparr> s)
       \<and> (primaryWorkloadGet cl a s = Inr m \<and> DeletionTimestamp m = None \<and>
          SecretGet cl (app_secretName a) (namespace a) s = Inl e2 \<and> IsNotFound e2 \<and>
          ServiceGet cl (name a) (namespace a) s = Inl e3 \<and> IsNotFound e3
          \<longrightarrow> app_Exists cl a s = (\<lparr>Exists = True, Terminating = False\<rparr>, None))"
  using assms
  by (cases "deploymentType a")
     (auto simp: exists_defs split: sum.splits)

theorem Exists_aggregation_witness:
  "app_Exists memClient (app0 DeploymentStateless)
     (cluster0\<lparr>memSecrets := [(''ns'', ''db-application-config'') \<mapsto> Secret0]\<rparr>)
     = (\<lparr>Exists = True, Terminating = False\<rparr>, None)
   \<and> app_Exists memClient (app0 DeploymentStateful)
     (cluster0\<lparr>memStatefulSets :=
        [(''ns'', ''db'') \<mapsto> StatefulSet0\<lparr>ssMeta := ObjectMeta0\<lparr>DeletionTimestamp := Some 7\<rparr>\<rparr>]\<rparr>)
     = (\<lparr>Exists = True, Terminating = True\<rparr>, None)
   \<and> app_Exists memClient (app0 DeploymentDaemon)
     (cluster0\<lparr>memServices := [(''ns'', ''db'') \<mapsto> Service0]\<rparr>)
     = (\<lparr>Exists = True, Terminating = False\<rparr>, None)
   \<and> app_Exists memClient (app0 DeploymentDaemon) cluster0
     = (\<lparr>Exists = False, Terminating = False\<rparr>, None)"
proof -
  let ?cA = "cluster0\<lparr>memSecrets := [(''ns'', ''db-application-config'') \<mapsto> Secret0]\<rparr>"
  let ?cB = "cluster0\<lparr>memStatefulSets :=
        [(''ns'', ''db'') \<mapsto> StatefulSet0\<lparr>ssMeta := ObjectMeta0\<lparr>DeletionTimestamp := Some 7\<rparr>\<rparr>]\<rparr>"
  let ?cC = "cluster0\<lparr>memServices := [(''ns'', ''db'') \<mapsto> Service0]\<rparr>"
  have kA: "isKnownType (deploymentType (app0 DeploymentStateless))"
    and kB: "isKnownType (deploymentType (app0 DeploymentStateful))"
    and kC: "isKnownType (deploymentType (app0 DeploymentDaemon))"
    by (simp_all add: app0_def)
  have hA: "primaryWorkloadGet memClient (app0 DeploymentStateless) ?cA
              = Inl (ErrNotFound ''%s %q'' [''deployment'', ''db''])
      \<and> IsNotFound (ErrNotFound ''%s %q'' [''deployment'', ''db''])
      \<and> SecretGet memClient (app_secretName (app0 DeploymentStateless))
            (namespace (app0 DeploymentStateless)) ?cA = Inr Secret0
      \<and> DeletionTimestamp (secMeta Secret0) = None
      \<and> ServiceGet memClient (name (app0 DeploymentStateless))
            (namespace (app0 DeploymentStateless)) ?cA
              = Inl (ErrNotFound ''%s %q'' [''service'', ''db''])
      \<and> IsNotFound (ErrNotFound ''%s %q'' [''service'', ''db''])"
    by (simp add: mem_simps primaryWorkloadGet_def Secret0_def ObjectMeta0_def)
  have hB: "primaryWorkloadGet memClient (app0 DeploymentStateful) ?cB
              = Inr (ObjectMeta0\<lparr>DeletionTimestamp := Some 7\<rparr>)
      \<and> DeletionTimestamp (ObjectMeta0\<lparr>DeletionTimestamp := Some 7\<rparr>) \<noteq> None"
    by (simp add: mem_simps primaryWorkloadGet_def StatefulSet0_def)
  have hC: "primaryWorkloadGet memClient (app0 DeploymentDaemon) ?cC
              = Inl (ErrNotFound ''%s %q'' [''daemonset'', ''db''])
      \<and> IsNotFound (ErrNotFound ''%s %q'' [''daemonset'', ''db''])
      \<and> SecretGet memClient (app_secretName (app0 DeploymentDaemon))
            (namespace (app0 DeploymentDaemon)) ?cC
              = Inl (ErrNotFound ''%s %q'' [''secret'', ''db-application-config''])
      \<and> IsNotFound (ErrNotFound ''%s %q'' [''secret'', ''db-application-config''])
      \<and> ServiceGet memClient (name (app0 DeploymentDaemon))
            (namespace (app0 DeploymentDaemon)) ?cC = Inr Service0"
    by (simp add: mem_simps primaryWorkloadGet_def)
  have hD: "primaryWorkloadGet memClient (app0 DeploymentDaemon) cluster0
              = Inl (ErrNotFound ''%s %q'' [''daemonset'', ''db''])
      \<and> IsNotFound (ErrNotFound ''%s %q'' [''daemonset'', ''db''])
      \<and> SecretGet memClient (app_secretName (app0 DeploymentDaemon))
            (namespace (app0 DeploymentDaemon)) cluster0
              = Inl (ErrNotFound ''%s %q'' [''secret'', ''db-application-config''])
      \<and> IsNotFound (ErrNotFound ''%s %q'' [''secret'', ''db-application-config''])
      \<and> ServiceGet memClient (name (app0 DeploymentDaemon))
            (namespace (app0 DeploymentDaemon)) cluster0
              = Inl (ErrNotFound ''%s %q'' [''service'', ''db''])
      \<and> IsNotFound (ErrNotFound ''%s %q'' [''service'', ''db''])"
    by (simp add: mem_simps primaryWorkloadGet_def)
  have svc: "(DeletionTimestamp (svcMeta Service0) \<noteq> None) = False"
    by (simp add: Service0_def ObjectMeta0_def)
  note A = Exists_aggregation[OF kA, of memClient ?cA, THEN conjunct1, rule_format, OF hA]
  note B = Exists_aggregation[OF kB, of memClient ?cB, THEN conjunct2, THEN conjunct1,
      rule_format, OF hB]
  note C = Exists_aggregation[OF kC, of memClient ?cC, THEN conjunct2, THEN conjunct2,
      THEN conjunct2, THEN conjunct2, THEN conjunct1, rule_format, OF hC]
  note D = Exists_aggregation[OF kC, of memClient cluster0, THEN conjunct2, THEN conjunct2,
      THEN conjunct2, THEN conjunct2, THEN conjunct2, THEN conjunct1, rule_format, OF hD]
  from A B C D show ?thesis
    by (simp only: svc)
qed

section \<open>State\<close>

lemma listReplicas_pages:
  "servesPages cl ns selector s tok pages \<Longrightarrow>
   listReplicas cl ns selector s tok acc = Some (Inr (acc @ podNames pages))"
proof (induction cl ns selector s tok pages arbitrary: acc rule: servesPages.induct)
  case (1 cl ns selector s tok)
  then show ?case by simp
next
  case (2 cl ns selector s tok p)
  then show ?case
    by (subst listReplicas.simps) (auto simp: podNames_def)
next
  case (3 cl ns selector s tok p q rest)
  from "3.prems" have page: "PodsList cl ns selector tok s = Inr p"
    and more: "RemainingItemCount p \<noteq> None" "RemainingItemCount p \<noteq> Some 0"
    and rest: "servesPages cl ns selector s (Continue p) (q # rest)"
    by simp_all
  have "listReplicas cl ns selector s tok acc =
        listReplicas cl ns selector s (Continue p) (acc @ map podName (Items p))"
    by (subst listReplicas.simps) (simp add: page more)
  also have "\<dots> = Some (Inr ((acc @ map podName (Items p)) @ podNames (q # rest)))"
    by (rule "3.IH"[OF rest])
  finally show ?case by (simp add: podNames_def)
qed

text \<open>
  Claim C8. When the server hands out the pod list in pages, each page but the last
  reporting remaining items and carrying the token of the next, \<open>State\<close> returns (the
  loop ends at the page that reports no remaining items) and its replicas are the names of
  all pages sorted: every name as often as the pages hold it, none left out, and without
  duplicates when the pods of the pages have distinct names.
\<close>

theorem State_pagination:
  assumes pages: "servesPages cl (namespace a) (app_labelSelector x a) s [] pages"
    and desired: "desiredReplicas cl a s = Inr n"
  shows "\<exists>st. app_State cl x a s = Some (st, None)
           \<and> DesiredReplicas st = n
           \<and> Replicas st = sort (podNames pages)
           \<and> sorted (Replicas st)
           \<and> mset (Replicas st) = mset (podNames pages)
           \<and> set (Replicas st) = set (podNames pages)
           \<and> (distinct (podNames pages) \<longrightarrow> distinct (Replicas st))"
proof -
  have "listReplicas cl (namespace a) (app_labelSelector x a) s [] [] = Some (Inr (podNames pages))"
    using listReplicas_pages[OF pages, of "[]"] by simp
  then have "app_State cl x a s =
      Some (\<lparr>DesiredReplicas = n, Replicas = sort (podNames pages)\<rparr>, None)"
    by (simp add: app_State_def desired)
  then show ?thesis by simp
qed

theorem State_pagination_witness:
  "app_State memClient ext0 (app0 DeploymentDaemon) pagedCluster
     = Some (\<lparr>DesiredReplicas = 3, Replicas = [''db-a'', ''db-b'', ''db-c'']\<rparr>, None)"
proof -
  have pages: "servesPages memClient (namespace (app0 DeploymentDaemon))
      (app_labelSelector ext0 (app0 DeploymentDaemon)) pagedCluster [] pagedPages"
    by (simp add: pagedPages_def pagedCluster_def mem_simps)
  have desired: "desiredReplicas memClient (app0 DeploymentDaemon) pagedCluster = Inr 3"
    by (simp add: desiredReplicas_def pagedCluster_def mem_simps DaemonSet0_def)
  have names: "sort (podNames pagedPages) = [''db-a'', ''db-b'', ''db-c'']"
    by (simp add: podNames_def pagedPages_def)
  from State_pagination[OF pages desired] names show ?thesis
    by auto
qed

lemma State_of_pages:
  assumes pages: "servesPages cl (namespace a) (app_labelSelector x a) s [] pages"
    and desired: "desiredReplicas cl a s = Inr n"
  shows "app_State cl x a s = Some (\<lparr>DesiredReplicas = n, Replicas = sort (podNames pages)\<rparr>, None)"
proof -
  have "listReplicas cl (namespace a) (app_labelSelector x a) s [] [] = Some (Inr (podNames pages))"
    using listReplicas_pages[OF pages, of "[]"] by simp
  then show ?thesis by (simp add: app_State_def desired)
qed

text \<open>
  Claim C7. For a stateful or stateless application \<open>State\<close> reads the replica pointer
  of the live workload: a nil pointer is the error \<open>missing replicas\<close> with the empty
  state (no default is put in its place), and with a set pointer \<open>State\<close> returns that
  count as the desired count when the pod list is served in pages. For a daemon application
  it returns the desired-scheduled number of the live status, which is always there.
  Whatever the pod list does, the desired count of a successful call is that number, and
  whenever \<open>State\<close> returns an error its state is empty.
\<close>

theorem State_desired_replicas:
  "(deploymentType a = DeploymentStateful \<and> StatefulSetGet cl (name a) (namespace a) s = Inr ss \<and>
      ssReplicas (ssSpec ss) = None
      \<longrightarrow> app_State cl x a s = Some (ApplicationState0, Some (ErrErrorf ''missing replicas'' [])))
   \<and> (deploymentType a = DeploymentStateless \<and> DeploymentGet cl (name a) (namespace a) s = Inr d \<and>
      dReplicas (dSpec d) = None
      \<longrightarrow> app_State cl x a s = Some (ApplicationState0, Some (ErrErrorf ''missing replicas'' [])))
   \<and> (deploymentType a = DeploymentStateful \<and> StatefulSetGet cl (name a) (namespace a) s = Inr ss \<and>
      ssReplicas (ssSpec ss) = Some r \<and>
      servesPages cl (namespace a) (app_labelSelector x a) s [] pages
      \<longrightarrow> app_State cl x a s
            = Some (\<lparr>DesiredReplicas = sint r, Replicas = sort (podNames pages)\<rparr>, None))
   \<and> (deploymentType a = DeploymentStateless \<and> DeploymentGet cl (name a) (namespace a) s = Inr d \<and>
      dReplicas (dSpec d) = Some r \<and>
      servesPages cl (namespace a) (app_labelSelector x a) s [] pages
      \<longrightarrow> app_State cl x a s
            = Some (\<lparr>DesiredReplicas = sint r, Replicas = sort (podNames pages)\<rparr>, None))
   \<and> (deploymentType a = DeploymentDaemon \<and> DaemonSetGet cl (name a) (namespace a) s = Inr ds \<and>
      servesPages cl (namespace a) (app_labelSelector x a) s [] pages
      \<longrightarrow> app_State cl x a s
            = Some (\<lparr>DesiredReplicas = sint (DesiredNumberScheduled ds),
                     Replicas = sort (podNames pages)\<rparr>, None))
   \<and> (deploymentType a = DeploymentStateful \<and> StatefulSetGet cl (name a) (namespace a) s = Inr ss \<and>
      ssReplicas (ssSpec ss) = Some r \<and> app_State cl x a s = Some (st, None)
      \<longrightarrow> DesiredReplicas st = sint r)
   \<and> (deploymentType a = DeploymentStateless \<and> DeploymentGet cl (name a) (namespace a) s = Inr d \<and>
      dReplicas (dSpec d) = Some r \<and> app_State cl x a s = Some (st, None)
      \<longrightarrow> DesiredReplicas st = sint r)
   \<and> (deploymentType a = DeploymentDaemon \<and> DaemonSetGet cl (name a) (namespace a) s = Inr ds
      \<longrightarrow> desiredReplicas cl a s = Inr (sint (DesiredNumberScheduled ds)) \<and>
          (app_State cl x a s = Some (st, None)
           \<longrightarrow> DesiredReplicas st = sint (DesiredNumberScheduled ds)))
   \<and> (app_State cl x a s = Some (st, Some err) \<longrightarrow> st = ApplicationState0)"
proof (intro conjI impI)
  assume "deploymentType a = DeploymentStateful \<and> StatefulSetGet cl (name a) (namespace a) s = Inr ss \<and>
      ssReplicas (ssSpec ss) = Some r \<and>
      servesPages cl (namespace a) (app_labelSelector x a) s [] pages"
  then show "app_State cl x a s
            = Some (\<lparr>DesiredReplicas = sint r, Replicas = sort (podNames pages)\<rparr>, None)"
    by (intro State_of_pages) (simp_all add: desiredReplicas_def)
next
  assume "deploymentType a = DeploymentStateless \<and> DeploymentGet cl (name a) (namespace a) s = Inr d \<and>
      dReplicas (dSpec d) = Some r \<and>
      servesPages cl (namespace a) (app_labelSelector x a) s [] pages"
  then show "app_State cl x a s
            = Some (\<lparr>DesiredReplicas = sint r, Replicas = sort (podNames pages)\<rparr>, None)"
    by (intro State_of_pages) (simp_all add: desiredReplicas_def)
next
  assume "deploymentType a = DeploymentDaemon \<and> DaemonSetGet cl (name a) (namespace a) s = Inr ds \<and>
      servesPages cl (namespace a) (app_labelSelector x a) s [] pages"
  then show "app_State cl x a s
            = Some (\<lparr>DesiredReplicas = sint (DesiredNumberScheduled ds),
                     Replicas = sort (podNames pages)\<rparr>, None)"
    by (intro State_of_pages) (simp_all add: desiredReplicas_def)
qed (auto simp: app_State_def desiredReplicas_def split: sum.splits option.splits)

theorem State_desired_replicas_witness:
  "app_State memClient ext0 (app0 DeploymentStateful) missingReplicasCluster
     = Some (ApplicationState0, Some (ErrErrorf ''missing replicas'' []))
   \<and> app_State memClient ext0 (app0 DeploymentStateless) missingReplicasCluster
     = Some (ApplicationState0, Some (ErrErrorf ''missing replicas'' []))
   \<and> app_State memClient ext0 (app0 DeploymentStateful) scaledCluster
     = Some (\<lparr>DesiredReplicas = 2, Replicas = [''db-a'', ''db-b'', ''db-c'']\<rparr>, None)
   \<and> app_State memClient ext0 (app0 DeploymentStateless) scaledCluster
     = Some (\<lparr>DesiredReplicas = 4, Replicas = [''db-a'', ''db-b'', ''db-c'']\<rparr>, None)
   \<and> app_State memClient ext0 (app0 DeploymentDaemon) scaledCluster
     = Some (\<lparr>DesiredReplicas = 5, Replicas = [''db-a'', ''db-b'', ''db-c'']\<rparr>, None)"
proof -
  let ?ss2 = "StatefulSet0\<lparr>ssSpec := (ssSpec StatefulSet0)\<lparr>ssReplicas := Some 2\<rparr>\<rparr>"
  let ?d4 = "Deployment0\<lparr>dSpec := (dSpec Deployment0)\<lparr>dReplicas := Some 4\<rparr>\<rparr>"
  let ?ds5 = "DaemonSet0\<lparr>DesiredNumberScheduled := 5\<rparr>"
  have ss: "deploymentType (app0 DeploymentStateful) = DeploymentStateful \<and>
      StatefulSetGet memClient (name (app0 DeploymentStateful))
        (namespace (app0 DeploymentStateful)) missingReplicasCluster = Inr StatefulSet0 \<and>
      ssReplicas (ssSpec StatefulSet0) = None"
    by (simp add: mem_simps missingReplicasCluster_def StatefulSet0_def)
  have d: "deploymentType (app0 DeploymentStateless) = DeploymentStateless \<and>
      DeploymentGet memClient (name (app0 DeploymentStateless))
        (namespace (app0 DeploymentStateless)) missingReplicasCluster = Inr Deployment0 \<and>
      dReplicas (dSpec Deployment0) = None"
    by (simp add: mem_simps missingReplicasCluster_def Deployment0_def)
  have pages: "\<And>t. servesPages memClient (namespace (app0 t))
      (app_labelSelector ext0 (app0 t)) scaledCluster [] pagedPages"
    by (simp add: pagedPages_def pagedCluster_def scaledCluster_def mem_simps)
  have ss2: "deploymentType (app0 DeploymentStateful) = DeploymentStateful \<and>
      StatefulSetGet memClient (name (app0 DeploymentStateful))
        (namespace (app0 DeploymentStateful)) scaledCluster = Inr ?ss2 \<and>
      ssReplicas (ssSpec ?ss2) = Some 2 \<and>
      servesPages memClient (namespace (app0 DeploymentStateful))
        (app_labelSelector ext0 (app0 DeploymentStateful)) scaledCluster [] pagedPages"
    using pages by (simp add: mem_simps scaledCluster_def)
  have d4: "deploymentType (app0 DeploymentStateless) = DeploymentStateless \<and>
      DeploymentGet memClient (name (app0 DeploymentStateless))
        (namespace (app0 DeploymentStateless)) scaledCluster = Inr ?d4 \<and>
      dReplicas (dSpec ?d4) = Some 4 \<and>
      servesPages memClient (namespace (app0 DeploymentStateless))
        (app_labelSelector ext0 (app0 DeploymentStateless)) scaledCluster [] pagedPages"
    using pages by (simp add: mem_simps scaledCluster_def)
  have ds5: "deploymentType (app0 DeploymentDaemon) = DeploymentDaemon \<and>
      DaemonSetGet memClient (name (app0 DeploymentDaemon))
        (namespace (app0 DeploymentDaemon)) scaledCluster = Inr ?ds5 \<and>
      servesPages memClient (namespace (app0 DeploymentDaemon))
        (app_labelSelector ext0 (app0 DeploymentDaemon)) scaledCluster [] pagedPages"
    using pages by (simp add: mem_simps scaledCluster_def)
  have names: "sort (podNames pagedPages) = [''db-a'', ''db-b'', ''db-c'']"
    by (simp add: podNames_def pagedPages_def)
  have nums: "sint (2 :: 32 word) = 2" "sint (4 :: 32 word) = 4"
    "sint (DesiredNumberScheduled ?ds5) = 5"
    by simp_all
  note t1 = State_desired_replicas[where cl=memClient and x=ext0 and s=missingReplicasCluster
         and a="app0 DeploymentStateful" and ss=StatefulSet0, THEN conjunct1, rule_format, OF ss]
  note t2 = State_desired_replicas[where cl=memClient and x=ext0 and s=missingReplicasCluster
         and a="app0 DeploymentStateless" and d=Deployment0, THEN conjunct2, THEN conjunct1,
         rule_format, OF d]
  note t3 = State_desired_replicas[where cl=memClient and x=ext0 and s=scaledCluster
         and a="app0 DeploymentStateful" and ss="?ss2" and r=2 and pages=pagedPages,
         THEN conjunct2, THEN conjunct2, THEN conjunct1, rule_format, OF ss2]
  note t4 = State_desired_replicas[where cl=memClient and x=ext0 and s=scaledCluster
         and a="app0 DeploymentStateless" and d="?d4" and r=4 and pages=pagedPages,
         THEN conjunct2, THEN conjunct2, THEN conjunct2, THEN conjunct1, rule_format, OF d4]
  note t5 = State_desired_replicas[where cl=memClient and x=ext0 and s=scaledCluster
         and a="app0 DeploymentDaemon" and ds="?ds5" and pages=pagedPages,
         THEN conjunct2, THEN conjunct2, THEN conjunct2, THEN conjunct2, THEN conjunct1,
         rule_format, OF ds5]
  from t1 t2 t3 t4 t5 show ?thesis
    by (simp only: names nums)
qed

section \<open>Storage classes\<close>

text \<open>
  Claim C6. For a filesystem that is not a plain volume source, \<open>filesystemToVolumeInfo\<close>
  returns a claim and resolves its storage class in this order: a class of the configured
  name exists, then the claim keeps that name and no class is made; else a class of the
  namespace-qualified name exists, then the claim refers to the qualified name and no
  class is made; else one new class is made and the claim refers to it by name. A new class
  is returned in the third case only.
\<close>

theorem filesystemToVolumeInfo_precedence:
  assumes size: "ParseQuantity x (showNat (unat (Size fs)) @ ''Mi'') = Inr fsSize"
    and source: "VolumeSourceForFilesystem x fs = Inr None"
    and params: "ParseVolumeParams x (pvcNameGetter nm) fsSize (Attributes fs) = Inr params"
  shows "\<exists>pvc newStorageClass.
      app_filesystemToVolumeInfo x a nm fs storageClasses pvcNameGetter
        = Inr (None, Some pvc, newStorageClass)
    \<and> Name (pvcMeta pvc) = vpName params
    \<and> (storageClasses (vpStorageClass params) \<noteq> None
        \<longrightarrow> newStorageClass = None \<and> pvcSpec pvc = PersistentVolumeClaimSpecOf x params)
    \<and> (storageClasses (vpStorageClass params) = None \<and>
        storageClasses (QualifiedStorageClassName x (namespace a) (vpStorageClass params)) \<noteq> None
        \<longrightarrow> newStorageClass = None \<and>
            pvcSpec pvc = PersistentVolumeClaimSpecOf x (params\<lparr>vpStorageClass :=
              QualifiedStorageClassName x (namespace a) (vpStorageClass params)\<rparr>))
    \<and> (storageClasses (vpStorageClass params) = None \<and>
        storageClasses (QualifiedStorageClassName x (namespace a) (vpStorageClass params)) = None
        \<longrightarrow> newStorageClass =
              Some (StorageClassSpec x (StorageProvisioner x (namespace a) (modelName a) params)
                (legacyLabels a)) \<and>
            pvcSpec pvc = PersistentVolumeClaimSpecOf x (params\<lparr>vpStorageClass :=
              Name (scMeta (StorageClassSpec x
                (StorageProvisioner x (namespace a) (modelName a) params) (legacyLabels a)))\<rparr>))
    \<and> (newStorageClass \<noteq> None \<longleftrightarrow>
          storageClasses (vpStorageClass params) = None \<and>
          storageClasses (QualifiedStorageClassName x (namespace a) (vpStorageClass params)) = None)"
  by (auto simp: app_filesystemToVolumeInfo_def size source params Let_def)

theorem filesystemToVolumeInfo_precedence_witness:
  "(\<exists>pvc. app_filesystemToVolumeInfo ext0 (app0 DeploymentStateless) ''db-data''
        (filesystem0 ''data'' ''fast'') [''fast'' \<mapsto> sampleClass ''fast''] (\<lambda>v. v @ ''-abcd'')
      = Inr (None, Some pvc, None)
      \<and> Name (pvcMeta pvc) = ''db-data-abcd''
      \<and> StorageClassName (pvcSpec pvc) = Some ''fast'')
   \<and> (\<exists>pvc. app_filesystemToVolumeInfo ext0 (app0 DeploymentStateless) ''db-data''
        (filesystem0 ''data'' ''fast'') [''ns-fast'' \<mapsto> sampleClass ''ns-fast'']
        (\<lambda>v. v @ ''-abcd'')
      = Inr (None, Some pvc, None)
      \<and> StorageClassName (pvcSpec pvc) = Some ''ns-fast'')
   \<and> (\<exists>pvc newStorageClass. app_filesystemToVolumeInfo ext0 (app0 DeploymentStateless) ''db-data''
        (filesystem0 ''data'' ''fast'') Map.empty (\<lambda>v. v @ ''-abcd'')
      = Inr (None, Some pvc, Some newStorageClass)
      \<and> Name (scMeta newStorageClass) = ''ns-fast''
      \<and> StorageClassName (pvcSpec pvc) = Some ''ns-fast'')"
proof -
  let ?fs = "filesystem0 ''data'' ''fast''"
  let ?params = "\<lparr>vpName = ''db-data-abcd'',
      vpSize = ParsedQuantity (showNat (unat (Size ?fs)) @ ''Mi''), vpStorageClass = ''fast'',
      vpStorageProvisioner = [], vpParameters = Map.empty\<rparr>"
  have h1: "ParseQuantity ext0 (showNat (unat (Size ?fs)) @ ''Mi'')
      = Inr (ParsedQuantity (showNat (unat (Size ?fs)) @ ''Mi''))"
    by (simp add: ext0_def)
  have h2: "VolumeSourceForFilesystem ext0 ?fs = Inr None"
    by (simp add: ext0_def filesystem0_def)
  have h3: "ParseVolumeParams ext0 ((\<lambda>v. v @ ''-abcd'') ''db-data'')
      (ParsedQuantity (showNat (unat (Size ?fs)) @ ''Mi'')) (Attributes ?fs) = Inr ?params"
    by (simp add: ext0_def filesystem0_def)
  note prec = filesystemToVolumeInfo_precedence[where pvcNameGetter="\<lambda>v. v @ ''-abcd''"
      and nm="''db-data''" and a="app0 DeploymentStateless", OF h1 h2 h3]
  show ?thesis
    using prec[of "[''fast'' \<mapsto> sampleClass ''fast'']"]
      prec[of "[''ns-fast'' \<mapsto> sampleClass ''ns-fast'']"]
      prec[of Map.empty]
    by (clarsimp simp: ext0_def app0_def qualifiedName_def ObjectMeta0_def)
qed

section \<open>Ensure\<close>



lemma client_rp_simps [simp]:
  "ServiceGet (cl\<lparr>randomPrefix := rp\<rparr>) = ServiceGet cl"
  "ServiceApply (cl\<lparr>randomPrefix := rp\<rparr>) = ServiceApply cl"
  "StatefulSetGet (cl\<lparr>randomPrefix := rp\<rparr>) = StatefulSetGet cl"
  "DeploymentGet (cl\<lparr>randomPrefix := rp\<rparr>) = DeploymentGet cl"
  "DaemonSetGet (cl\<lparr>randomPrefix := rp\<rparr>) = DaemonSetGet cl"
  "ListStorageClass (cl\<lparr>randomPrefix := rp\<rparr>) = ListStorageClass cl"
  by simp_all






lemma extendsStaged_refl: "extendsStaged l l"
  by (simp add: extendsStaged_def)

lemma extendsStaged_trans: "extendsStaged l l1 \<Longrightarrow> extendsStaged l1 l2 \<Longrightarrow> extendsStaged l l2"
  by (auto simp: extendsStaged_def)

lemma handleVolume_staged: "handleVolume x v mp ro l = (l', r) \<Longrightarrow> extendsStaged l l'"
  by (auto simp: handleVolume_def extendsStaged_def split: sum.splits)

lemma handleVolumeMount_staged: "handleVolumeMount config sn m l = (l', r) \<Longrightarrow> extendsStaged l l'"
  by (auto simp: handleVolumeMount_def extendsStaged_def)

lemma handleStorageClass_staged: "handleStorageClass sc l = (l', r) \<Longrightarrow> extendsStaged l l'"
  by (auto simp: handleStorageClass_def extendsStaged_def applier_Apply_def)

lemma handlePVCForStatelessResource_staged:
  "handlePVCForStatelessResource x a pvc mp ro l = (l', r) \<Longrightarrow> extendsStaged l l'"
  by (auto simp: handlePVCForStatelessResource_def handleVolume_def extendsStaged_def
      applier_Apply_def Let_def split: sum.splits)

lemma handlePVCForStatefulSet_staged:
  "handlePVCForStatefulSet x pvc mp ro l = (l', r) \<Longrightarrow> extendsStaged l l'"
  by (auto simp: handlePVCForStatefulSet_def extendsStaged_def split: sum.splits)

lemma configureFilesystem_rel:
  assumes refl: "\<And>l. R l l" and trans: "\<And>l1 l2 l3. R l1 l2 \<Longrightarrow> R l2 l3 \<Longrightarrow> R l1 l3"
    and hV: "\<And>v mp ro l l' r. hV v mp ro l = (l', r) \<Longrightarrow> R l l'"
    and hVM: "\<And>sn m l l' r. hVM sn m l = (l', r) \<Longrightarrow> R l l'"
    and hPVC: "\<And>p mp ro l l' r. hPVC p mp ro l = (l', r) \<Longrightarrow> R l l'"
    and hSC: "\<And>c l l' r. hSC c l = (l', r) \<Longrightarrow> R l l'"
    and run: "configureFilesystem x a uid (Some hV) hVM (Some hPVC) (Some hSC) idx fs m l = (l', m', r)"
  shows "R l l'"
  using run
  by (auto simp: configureFilesystem_def volumeStep_def storageClassStep_def claimStep_def
      mountStep_def Let_def split: sum.splits prod.splits option.splits
      dest!: hV hVM hPVC hSC intro: trans refl)

lemma configureStorageLoop_rel:
  assumes refl: "\<And>l. R l l" and trans: "\<And>l1 l2 l3. R l1 l2 \<Longrightarrow> R l2 l3 \<Longrightarrow> R l1 l3"
    and hV: "\<And>v mp ro l l' r. hV v mp ro l = (l', r) \<Longrightarrow> R l l'"
    and hVM: "\<And>sn m l l' r. hVM sn m l = (l', r) \<Longrightarrow> R l l'"
    and hPVC: "\<And>p mp ro l l' r. hPVC p mp ro l = (l', r) \<Longrightarrow> R l l'"
    and hSC: "\<And>c l l' r. hSC c l = (l', r) \<Longrightarrow> R l l'"
  shows "configureStorageLoop x a uid (Some hV) hVM (Some hPVC) (Some hSC) idx fss names m l
           = (l', r) \<Longrightarrow> R l l'"
proof (induction fss arbitrary: idx names m l)
  case Nil
  then show ?case by (simp add: refl)
next
  case (Cons fs fss)
  show ?case
  proof (cases "StorageName fs \<in> names")
    case True
    with Cons.prems show ?thesis by (simp add: refl)
  next
    case False
    obtain l1 m1 r1 where step:
      "configureFilesystem x a uid (Some hV) hVM (Some hPVC) (Some hSC) idx fs m l = (l1, m1, r1)"
      by (cases "configureFilesystem x a uid (Some hV) hVM (Some hPVC) (Some hSC) idx fs m l") auto
    have e1: "R l l1"
      by (rule configureFilesystem_rel[of R, OF refl trans hV hVM hPVC hSC step])
    show ?thesis
    proof (cases r1)
      case None
      with Cons.prems False step have
        "configureStorageLoop x a uid (Some hV) hVM (Some hPVC) (Some hSC) (Suc idx) fss
           (insert (StorageName fs) names) m1 l1 = (l', r)"
        by simp
      from trans[OF e1 Cons.IH[OF this]] show ?thesis .
    next
      case (Some err)
      with Cons.prems False step have "l' = l1" by simp
      with e1 show ?thesis by simp
    qed
  qed
qed

lemma configureStorage_rel:
  assumes refl: "\<And>l. R l l" and trans: "\<And>l1 l2 l3. R l1 l2 \<Longrightarrow> R l2 l3 \<Longrightarrow> R l1 l3"
    and hV: "\<And>v mp ro l l' r. handleVolume x v mp ro l = (l', r) \<Longrightarrow> R l l'"
    and hVM: "\<And>sn m l l' r. handleVolumeMount config sn m l = (l', r) \<Longrightarrow> R l l'"
    and hPVC: "\<And>p mp ro l l' r. hPVC p mp ro l = (l', r) \<Longrightarrow> R l l'"
    and hSC: "\<And>c l l' r. handleStorageClass c l = (l', r) \<Longrightarrow> R l l'"
    and run: "configureStorage x a config scs uid hPVC l = (l', r)"
  shows "R l l'"
proof -
  obtain r0 where loop:
    "configureStorageLoop x a uid (Some (handleVolume x)) (handleVolumeMount config)
      (Some hPVC) (Some handleStorageClass) 0 (Filesystems config) {} (storageClassMapOf scs) l
      = (l', r0)"
    using run
    by (auto simp: configureStorage_def app_configureStorage_def split: prod.splits option.splits)
  show ?thesis
    by (rule configureStorageLoop_rel[of R, OF refl trans hV hVM hPVC hSC loop])
qed

lemma configureStorage_staged:
  assumes run: "configureStorage x a config scs uid hPVC l = (l', r)"
    and h: "hPVC = handlePVCForStatefulSet x \<or> hPVC = handlePVCForStatelessResource x a"
  shows "extendsStaged l l'"
proof -
  have refl: "\<And>l. extendsStaged l l" by (rule extendsStaged_refl)
  have trans: "\<And>l1 l2 l3. extendsStaged l1 l2 \<Longrightarrow> extendsStaged l2 l3 \<Longrightarrow> extendsStaged l1 l3"
    by (rule extendsStaged_trans)
  have hV: "\<And>v mp ro l l' r. handleVolume x v mp ro l = (l', r) \<Longrightarrow> extendsStaged l l'"
    by (rule handleVolume_staged)
  have hVM: "\<And>sn m l l' r. handleVolumeMount config sn m l = (l', r) \<Longrightarrow> extendsStaged l l'"
    by (rule handleVolumeMount_staged)
  have hSC: "\<And>c l l' r. handleStorageClass c l = (l', r) \<Longrightarrow> extendsStaged l l'"
    by (rule handleStorageClass_staged)
  have hPVC: "\<And>p mp ro l l' r. hPVC p mp ro l = (l', r) \<Longrightarrow> extendsStaged l l'"
    using h handlePVCForStatefulSet_staged handlePVCForStatelessResource_staged by blast
  show ?thesis
    by (rule configureStorage_rel[of extendsStaged, OF refl trans hV hVM hPVC hSC run])
qed

lemma configureStorage_batch:
  assumes run: "configureStorage x a config scs uid hPVC
      \<lparr>staged = [OpApply (ResSecret sec)], podSpec = ps, statefulset = ss\<rparr> = (l', r)"
    and h: "hPVC = handlePVCForStatefulSet x \<or> hPVC = handlePVCForStatelessResource x a"
  shows "\<exists>new. staged l' = OpApply (ResSecret sec) # new \<and> list_all isStorageOperation new"
  using configureStorage_staged[OF run h] by (simp add: extendsStaged_def)

lemma sameStatefulSetFrame_refl: "sameStatefulSetFrame l l"
  by (simp add: sameStatefulSetFrame_def)

lemma sameStatefulSetFrame_trans:
  "sameStatefulSetFrame l l1 \<Longrightarrow> sameStatefulSetFrame l1 l2 \<Longrightarrow> sameStatefulSetFrame l l2"
  by (simp add: sameStatefulSetFrame_def)

lemma configureStorage_frame:
  assumes run: "configureStorage x a config scs uid (handlePVCForStatefulSet x) l = (l', r)"
  shows "sameStatefulSetFrame l l'"
proof -
  have refl: "\<And>l. sameStatefulSetFrame l l" by (rule sameStatefulSetFrame_refl)
  have trans: "\<And>l1 l2 l3. sameStatefulSetFrame l1 l2 \<Longrightarrow> sameStatefulSetFrame l2 l3 \<Longrightarrow>
      sameStatefulSetFrame l1 l3"
    by (rule sameStatefulSetFrame_trans)
  have hV: "\<And>v mp ro l l' r. handleVolume x v mp ro l = (l', r) \<Longrightarrow> sameStatefulSetFrame l l'"
    by (auto simp: handleVolume_def sameStatefulSetFrame_def split: sum.splits)
  have hVM: "\<And>sn m l l' r. handleVolumeMount config sn m l = (l', r) \<Longrightarrow> sameStatefulSetFrame l l'"
    by (auto simp: handleVolumeMount_def sameStatefulSetFrame_def)
  have hSC: "\<And>c l l' r. handleStorageClass c l = (l', r) \<Longrightarrow> sameStatefulSetFrame l l'"
    by (auto simp: handleStorageClass_def sameStatefulSetFrame_def)
  have hPVC: "\<And>p mp ro l l' r. handlePVCForStatefulSet x p mp ro l = (l', r) \<Longrightarrow>
      sameStatefulSetFrame l l'"
    by (auto simp: handlePVCForStatefulSet_def sameStatefulSetFrame_def split: sum.splits)
  show ?thesis
    by (rule configureStorage_rel[of sameStatefulSetFrame, OF refl trans hV hVM hPVC hSC run])
qed

lemma configureStorageLoop_duplicate:
  "\<not> distinct (map StorageName fss) \<or> (\<exists>fs \<in> set fss. StorageName fs \<in> names) \<Longrightarrow>
   snd (configureStorageLoop x a uid hV hVM hPVC hSC idx fss names m l) \<noteq> None"
proof (induction fss arbitrary: idx names m l)
  case Nil
  then show ?case by simp
next
  case (Cons fs fss)
  show ?case
  proof (cases "StorageName fs \<in> names")
    case True
    then show ?thesis by simp
  next
    case False
    with Cons.prems have rest:
      "\<not> distinct (map StorageName fss) \<or>
       (\<exists>g \<in> set fss. StorageName g \<in> insert (StorageName fs) names)"
      by auto
    show ?thesis
      using False Cons.IH[OF rest]
      by (auto split: prod.splits option.splits)
  qed
qed

lemma configureStorageLoop_append:
  "configureStorageLoop x a uid hV hVM hPVC hSC idx pre names m l = (l1, None) \<Longrightarrow>
   \<exists>m1. configureStorageLoop x a uid hV hVM hPVC hSC idx (pre @ rest) names m l
        = configureStorageLoop x a uid hV hVM hPVC hSC (idx + length pre) rest
            (names \<union> set (map StorageName pre)) m1 l1"
proof (induction pre arbitrary: idx names m l)
  case Nil
  then show ?case by auto
next
  case (Cons fs pre)
  from Cons.prems have notin: "StorageName fs \<notin> names"
    by (auto split: if_splits)
  obtain l2 m2 r2 where step:
    "configureFilesystem x a uid hV hVM hPVC hSC idx fs m l = (l2, m2, r2)"
    by (cases "configureFilesystem x a uid hV hVM hPVC hSC idx fs m l") auto
  with Cons.prems notin have r2: "r2 = None"
    and rest: "configureStorageLoop x a uid hV hVM hPVC hSC (Suc idx) pre
                 (insert (StorageName fs) names) m2 l2 = (l1, None)"
    by (auto split: option.splits)
  from Cons.IH[OF rest] obtain m1 where
    "configureStorageLoop x a uid hV hVM hPVC hSC (Suc idx) (pre @ rest)
       (insert (StorageName fs) names) m2 l2
     = configureStorageLoop x a uid hV hVM hPVC hSC (Suc idx + length pre) rest
         (insert (StorageName fs) names \<union> set (map StorageName pre)) m1 l1"
    by blast
  with notin step r2 show ?case
    by (auto intro!: exI[of _ m1])
qed

lemma configureStorageLoop_notValid:
  assumes pre: "configureStorageLoop x a uid hV hVM hPVC hSC 0 pre {} m l = (l1, None)"
    and dup: "StorageName f \<in> set (map StorageName pre)"
  shows "configureStorageLoop x a uid hV hVM hPVC hSC 0 (pre @ f # rest) {} m l
       = (l1, Some (ErrNotValid ''duplicated storage name %q for %q'' [StorageName f, name a]))"
  using configureStorageLoop_append[OF pre, of "f # rest"] dup by auto

lemma ensureStateless_success:
  assumes "ensureStateless cl x a config scs ps ap s = (s', b, None)"
  shows "\<exists>exists uid l.
      existsOf (DeploymentGet cl (name a) (namespace a) s) = Inr exists
    \<and> app_getStorageUniqPrefix cl x
         (\<lambda>w. map_sum id (\<lambda>d. Annotations (dMeta d)) (DeploymentGet cl (name a) (namespace a) s)) s
         = (s', Inr uid)
    \<and> configureStorage x a config scs uid (handlePVCForStatelessResource x a)
         \<lparr>staged = ap, podSpec = ps, statefulset = StatefulSet0\<rparr> = (l, None)
    \<and> b = staged l @ [OpApply (ResDeployment
          \<lparr>dMeta = workloadMeta x a config uid,
           dSpec = \<lparr>dReplicas = numPodsOf exists, dSelector = app_selectorLabels x a,
             dTemplate = podTemplate x a config (podSpec l)\<rparr>\<rparr>)]"
  using assms
  by (auto simp: ensureStateless_def Let_def applier_Apply_def
      split: sum.splits prod.splits option.splits)

lemma ensureDaemon_success:
  assumes "ensureDaemon cl x a config scs ps ap s = (s', b, None)"
  shows "\<exists>uid l.
      app_getStorageUniqPrefix cl x
         (\<lambda>w. map_sum id (\<lambda>d. Annotations (dsMeta d)) (DaemonSetGet cl (name a) (namespace a) w)) s
         = (s', Inr uid)
    \<and> configureStorage x a config scs uid (handlePVCForStatelessResource x a)
         \<lparr>staged = ap, podSpec = ps, statefulset = StatefulSet0\<rparr> = (l, None)
    \<and> b = staged l @ [OpApply (ResDaemonSet
          \<lparr>dsMeta = workloadMeta x a config uid,
           dsSpec = \<lparr>dsSelector = app_selectorLabels x a,
             dsTemplate = podTemplate x a config (podSpec l)\<rparr>,
           DesiredNumberScheduled = 0\<rparr>)]"
  using assms
  by (auto simp: ensureDaemon_def Let_def applier_Apply_def
      split: sum.splits prod.splits option.splits)

lemma ensureStateful_success:
  assumes "ensureStateful cl x a config scs ps ap s = (s', b, None)"
  shows "\<exists>s1 exists uid l.
      app_configureHeadlessService cl x a (name a) (app_annotations x a config) s = (s1, None)
    \<and> existsOf (StatefulSetGet cl (name a) (namespace a) s1) = Inr exists
    \<and> app_getStorageUniqPrefix cl x
         (\<lambda>w. map_sum id (\<lambda>d. Annotations (ssMeta d)) (StatefulSetGet cl (name a) (namespace a) s1)) s1
         = (s', Inr uid)
    \<and> configureStorage x a config scs uid (handlePVCForStatefulSet x)
         \<lparr>staged = ap, podSpec = ps, statefulset = statefulSetOf x a config ps exists uid\<rparr>
         = (l, None)
    \<and> b = staged l @ [OpApply (ResStatefulSet
          ((statefulset l)\<lparr>ssSpec := (ssSpec (statefulset l))\<lparr>ssTemplate :=
             (ssTemplate (ssSpec (statefulset l)))\<lparr>tplSpec :=
               (tplSpec (ssTemplate (ssSpec (statefulset l))))
                 \<lparr>Containers := Containers (podSpec l)\<rparr>\<rparr>\<rparr>\<rparr>))]"
  using assms
  by (auto simp: ensureStateful_def Let_def applier_Apply_def statefulSetOf_def
      split: sum.splits prod.splits option.splits)

lemma stage_success:
  assumes "app_Ensure_stage cl x a config s = (s', b, None)"
  shows "\<exists>s0 ps scs.
      app_configureDefaultService cl x a (app_annotations x a config) s = (s0, None)
    \<and> app_applicationPodSpec x a config = Inr ps
    \<and> ListStorageClass cl s0 = Inr scs
    \<and> (case deploymentType a of
          DeploymentStateful \<Rightarrow>
            ensureStateful cl x a config scs ps [OpApply (ResSecret (ensureSecret x a config))] s0
        | DeploymentStateless \<Rightarrow>
            ensureStateless cl x a config scs ps [OpApply (ResSecret (ensureSecret x a config))] s0
        | DeploymentDaemon \<Rightarrow>
            ensureDaemon cl x a config scs ps [OpApply (ResSecret (ensureSecret x a config))] s0
        | DeploymentOther v \<Rightarrow> (s0, [], Some (ErrNotSupported ''unknown deployment type'' [])))
        = (s', b, None)"
  using assms
  by (auto simp: app_Ensure_stage_def Let_def applier_Apply_def
      split: sum.splits prod.splits option.splits DeploymentType.splits)

lemma storage_not_workload: "isStorageOperation op \<Longrightarrow> workloadKind op = None"
  by (cases op rule: isStorageOperation.cases) simp_all

lemma existsOf_cases:
  "existsOf r = Inr exists \<Longrightarrow>
   (exists \<longleftrightarrow> (\<exists>v. r = Inr v)) \<and> (\<not> exists \<longleftrightarrow> (\<exists>e. r = Inl e \<and> IsNotFound e))"
  by (auto simp: existsOf_def split: sum.splits if_splits)

lemma numPodsOf_simps:
  "(numPodsOf exists = Some 1) = (\<not> exists)" "(numPodsOf exists = None) = exists"
  by (simp_all add: numPodsOf_def)

lemma Ensure_staged_replicas:
  assumes kind: "deploymentType a = DeploymentStateful \<or> deploymentType a = DeploymentStateless"
    and sv: "ensureServices cl x a config s = (s1, None)"
    and ok: "app_Ensure_stage cl x a config s = (s', batch, None)"
  shows "\<exists>b0 w. batch = b0 @ [OpApply w]
     \<and> workloadKind (OpApply w) = Some (deploymentType a)
     \<and> Name (resourceMeta w) = name a
     \<and> list_all (\<lambda>op. workloadKind op = None) b0
     \<and> (workloadReplicas w = Some 1 \<longleftrightarrow> (\<exists>e. primaryWorkloadGet cl a s1 = Inl e \<and> IsNotFound e))
     \<and> (workloadReplicas w = None \<longleftrightarrow> (\<exists>m. primaryWorkloadGet cl a s1 = Inr m))"
proof -
  let ?ap = "[OpApply (ResSecret (ensureSecret x a config))]"
  from stage_success[OF ok] obtain s0 ps scs where
    ds: "app_configureDefaultService cl x a (app_annotations x a config) s = (s0, None)"
    and br: "(case deploymentType a of
          DeploymentStateful \<Rightarrow> ensureStateful cl x a config scs ps ?ap s0
        | DeploymentStateless \<Rightarrow> ensureStateless cl x a config scs ps ?ap s0
        | DeploymentDaemon \<Rightarrow> ensureDaemon cl x a config scs ps ?ap s0
        | DeploymentOther v \<Rightarrow> (s0, [], Some (ErrNotSupported ''unknown deployment type'' [])))
        = (s', batch, None)"
    by blast
  from kind show ?thesis
  proof
    assume t: "deploymentType a = DeploymentStateful"
    with br have "ensureStateful cl x a config scs ps ?ap s0 = (s', batch, None)" by simp
    from ensureStateful_success[OF this] obtain s1' exists uid l where
      hs: "app_configureHeadlessService cl x a (name a) (app_annotations x a config) s0 = (s1', None)"
      and ex: "existsOf (StatefulSetGet cl (name a) (namespace a) s1') = Inr exists"
      and cs: "configureStorage x a config scs uid (handlePVCForStatefulSet x)
         \<lparr>staged = ?ap, podSpec = ps, statefulset = statefulSetOf x a config ps exists uid\<rparr>
         = (l, None)"
      and b: "batch = staged l @ [OpApply (ResStatefulSet
          ((statefulset l)\<lparr>ssSpec := (ssSpec (statefulset l))\<lparr>ssTemplate :=
             (ssTemplate (ssSpec (statefulset l)))\<lparr>tplSpec :=
               (tplSpec (ssTemplate (ssSpec (statefulset l))))
                 \<lparr>Containers := Containers (podSpec l)\<rparr>\<rparr>\<rparr>\<rparr>))]"
      by blast
    from sv ds hs t have s1: "s1' = s1" by (simp add: ensureServices_def)
    from configureStorage_frame[OF cs] have
      meta: "ssMeta (statefulset l) = workloadMeta x a config uid"
      and spec: "(ssSpec (statefulset l))\<lparr>VolumeClaimTemplates := []\<rparr>
           = (ssSpec (statefulSetOf x a config ps exists uid))\<lparr>VolumeClaimTemplates := []\<rparr>"
      by (simp_all add: sameStatefulSetFrame_def statefulSetOf_def)
    from spec have reps: "ssReplicas (ssSpec (statefulset l)) = numPodsOf exists"
      by (metis (no_types) StatefulSetSpec.select_convs(1) StatefulSetSpec.surjective
          StatefulSetSpec.update_convs(5) statefulSetOf_def StatefulSet.select_convs(2))
    from configureStorage_batch[OF cs]
    have st: "list_all (\<lambda>op. workloadKind op = None) (staged l)"
      by (auto simp: list_all_iff storage_not_workload)
    from existsOf_cases[OF ex] have
      "(numPodsOf exists = Some 1) = (\<exists>e. primaryWorkloadGet cl a s1 = Inl e \<and> IsNotFound e)"
      "(numPodsOf exists = None) = (\<exists>m. primaryWorkloadGet cl a s1 = Inr m)"
      using t s1
      by (auto simp: numPodsOf_simps primaryWorkloadGet_def map_sum_def split: sum.splits)
    with b meta reps st t show ?thesis
      by (auto simp: workloadMeta_def)
  next
    assume t: "deploymentType a = DeploymentStateless"
    with br have "ensureStateless cl x a config scs ps ?ap s0 = (s', batch, None)" by simp
    from ensureStateless_success[OF this] obtain exists uid l where
      ex: "existsOf (DeploymentGet cl (name a) (namespace a) s0) = Inr exists"
      and cs: "configureStorage x a config scs uid (handlePVCForStatelessResource x a)
         \<lparr>staged = ?ap, podSpec = ps, statefulset = StatefulSet0\<rparr> = (l, None)"
      and b: "batch = staged l @ [OpApply (ResDeployment
          \<lparr>dMeta = workloadMeta x a config uid,
           dSpec = \<lparr>dReplicas = numPodsOf exists, dSelector = app_selectorLabels x a,
             dTemplate = podTemplate x a config (podSpec l)\<rparr>\<rparr>)]"
      by blast
    from sv ds t have s1: "s0 = s1" by (simp add: ensureServices_def)
    from configureStorage_batch[OF cs]
    have st: "list_all (\<lambda>op. workloadKind op = None) (staged l)"
      by (auto simp: list_all_iff storage_not_workload)
    from existsOf_cases[OF ex] have
      "(numPodsOf exists = Some 1) = (\<exists>e. primaryWorkloadGet cl a s1 = Inl e \<and> IsNotFound e)"
      "(numPodsOf exists = None) = (\<exists>m. primaryWorkloadGet cl a s1 = Inr m)"
      using t s1
      by (auto simp: numPodsOf_simps primaryWorkloadGet_def map_sum_def split: sum.splits)
    with b st t show ?thesis
      by (auto simp: workloadMeta_def)
  qed
qed

lemma stage_success_shape:
  assumes ok: "app_Ensure_stage cl x a config s = (s', batch, None)"
  shows "\<exists>b0 w uid. batch = b0 @ [OpApply w]
     \<and> workloadKind (OpApply w) = Some (deploymentType a)
     \<and> resourceMeta w = workloadMeta x a config uid
     \<and> list_all (\<lambda>op. workloadKind op = None) b0"
proof -
  let ?ap = "[OpApply (ResSecret (ensureSecret x a config))]"
  from stage_success[OF ok] obtain s0 ps scs where
    br: "(case deploymentType a of
          DeploymentStateful \<Rightarrow> ensureStateful cl x a config scs ps ?ap s0
        | DeploymentStateless \<Rightarrow> ensureStateless cl x a config scs ps ?ap s0
        | DeploymentDaemon \<Rightarrow> ensureDaemon cl x a config scs ps ?ap s0
        | DeploymentOther v \<Rightarrow> (s0, [], Some (ErrNotSupported ''unknown deployment type'' [])))
        = (s', batch, None)"
    by blast
  show ?thesis
  proof (cases "deploymentType a")
    case DeploymentStateful
    with br have "ensureStateful cl x a config scs ps ?ap s0 = (s', batch, None)" by simp
    from ensureStateful_success[OF this] obtain exists uid l where
      cs: "configureStorage x a config scs uid (handlePVCForStatefulSet x)
         \<lparr>staged = ?ap, podSpec = ps, statefulset = statefulSetOf x a config ps exists uid\<rparr>
         = (l, None)"
      and b: "batch = staged l @ [OpApply (ResStatefulSet
          ((statefulset l)\<lparr>ssSpec := (ssSpec (statefulset l))\<lparr>ssTemplate :=
             (ssTemplate (ssSpec (statefulset l)))\<lparr>tplSpec :=
               (tplSpec (ssTemplate (ssSpec (statefulset l))))
                 \<lparr>Containers := Containers (podSpec l)\<rparr>\<rparr>\<rparr>\<rparr>))]"
      by blast
    from configureStorage_frame[OF cs] have
      meta: "ssMeta (statefulset l) = workloadMeta x a config uid"
      by (simp add: sameStatefulSetFrame_def statefulSetOf_def)
    from configureStorage_batch[OF cs]
    have st: "list_all (\<lambda>op. workloadKind op = None) (staged l)"
      by (auto simp: list_all_iff storage_not_workload)
    from b meta st DeploymentStateful show ?thesis by auto
  next
    case DeploymentStateless
    with br have "ensureStateless cl x a config scs ps ?ap s0 = (s', batch, None)" by simp
    from ensureStateless_success[OF this] obtain exists uid l where
      cs: "configureStorage x a config scs uid (handlePVCForStatelessResource x a)
         \<lparr>staged = ?ap, podSpec = ps, statefulset = StatefulSet0\<rparr> = (l, None)"
      and b: "batch = staged l @ [OpApply (ResDeployment
          \<lparr>dMeta = workloadMeta x a config uid,
           dSpec = \<lparr>dReplicas = numPodsOf exists, dSelector = app_selectorLabels x a,
             dTemplate = podTemplate x a config (podSpec l)\<rparr>\<rparr>)]"
      by blast
    from configureStorage_batch[OF cs]
    have st: "list_all (\<lambda>op. workloadKind op = None) (staged l)"
      by (auto simp: list_all_iff storage_not_workload)
    from b st DeploymentStateless show ?thesis by auto
  next
    case DeploymentDaemon
    with br have "ensureDaemon cl x a config scs ps ?ap s0 = (s', batch, None)" by simp
    from ensureDaemon_success[OF this] obtain uid l where
      cs: "configureStorage x a config scs uid (handlePVCForStatelessResource x a)
         \<lparr>staged = ?ap, podSpec = ps, statefulset = StatefulSet0\<rparr> = (l, None)"
      and b: "batch = staged l @ [OpApply (ResDaemonSet
          \<lparr>dsMeta = workloadMeta x a config uid,
           dsSpec = \<lparr>dsSelector = app_selectorLabels x a,
             dsTemplate = podTemplate x a config (podSpec l)\<rparr>,
           DesiredNumberScheduled = 0\<rparr>)]"
      by blast
    from configureStorage_batch[OF cs]
    have st: "list_all (\<lambda>op. workloadKind op = None) (staged l)"
      by (auto simp: list_all_iff storage_not_workload)
    from b st DeploymentDaemon show ?thesis by auto
  next
    case (DeploymentOther v)
    with br show ?thesis by simp
  qed
qed

lemma memOperation_frame:
  "workloadKind op = None \<Longrightarrow>
   memStatefulSets (memOperation op c) = memStatefulSets c \<and>
   memDeployments (memOperation op c) = memDeployments c \<and>
   memDaemonSets (memOperation op c) = memDaemonSets c"
  by (cases "(op, c)" rule: memOperation.cases) simp_all

lemma memRun_frame:
  "list_all (\<lambda>op. workloadKind op = None) b \<Longrightarrow>
   memStatefulSets (foldl (\<lambda>k op. memOperation op k) c b) = memStatefulSets c \<and>
   memDeployments (foldl (\<lambda>k op. memOperation op k) c b) = memDeployments c \<and>
   memDaemonSets (foldl (\<lambda>k op. memOperation op k) c b) = memDaemonSets c"
  by (induction b arbitrary: c) (simp_all add: memOperation_frame)

lemma memClient_keeps_replicas: "runKeepsReplicas memClient a"
  unfolding runKeepsReplicas_def
proof (intro allI impI, elim conjE)
  fix b0 w s s' n
  assume b0: "list_all (\<lambda>op. workloadKind op = None) b0"
    and kind: "workloadKind (OpApply w) = Some (deploymentType a)"
    and nm: "Name (resourceMeta w) = name a" and ns: "Namespace (resourceMeta w) = namespace a"
    and nil: "workloadReplicas w = None"
    and live: "liveReplicas memClient a s = Inr n"
    and run: "applier_Run memClient (b0 @ [OpApply w]) s = (s', None)"
  let ?c = "foldl (\<lambda>k op. memOperation op k) s b0"
  from run have s': "s' = memOperation (OpApply w) ?c"
    by (simp add: memClient_def memRun_def)
  note fr = memRun_frame[OF b0, of s]
  show "liveReplicas memClient a s' = Inr n"
    using kind nm ns nil live fr unfolding s'
    by (cases w)
       (auto simp: liveReplicas_def memClient_def memGet_def metaKey_def keepLiveReplicas_def
          map_sum_def split: DeploymentType.splits option.splits sum.splits)
qed

lemma stage_success_meta:
  assumes ok: "app_Ensure_stage cl x a config s = (s', batch, None)"
  shows "Namespace (resourceMeta (operationResource (last batch))) = namespace a"
  using stage_success_shape[OF ok] by (auto simp: workloadMeta_def)

text \<open>
  Claim C9. For a stateful or stateless application a successful \<open>Ensure\<close> stages one
  workload object, last in the batch, named after the application; everything staged
  before it is the Secret or a storage object. Its replica count is one exactly when the
  read of the workload answered not-found, and nil exactly when the workload exists. So
  when the workload exists, and the mutation batch leaves the live replica count alone
  where the applied workload has none, the replica count of the live workload after
  \<open>Ensure\<close> is what it was.
\<close>

theorem Ensure_initial_replicas:
  assumes kind: "deploymentType a = DeploymentStateful \<or> deploymentType a = DeploymentStateless"
    and sv: "ensureServices cl x a config s = (s1, None)"
    and ok: "app_Ensure_stage cl x a config s = (s', batch, None)"
  shows "\<exists>b0 w. batch = b0 @ [OpApply w]
     \<and> workloadKind (OpApply w) = Some (deploymentType a)
     \<and> Name (resourceMeta w) = name a
     \<and> list_all (\<lambda>op. workloadKind op = None) b0
     \<and> (workloadReplicas w = Some 1 \<longleftrightarrow> (\<exists>e. primaryWorkloadGet cl a s1 = Inl e \<and> IsNotFound e))
     \<and> (workloadReplicas w = None \<longleftrightarrow> (\<exists>m. primaryWorkloadGet cl a s1 = Inr m))
     \<and> (\<forall>m n t. runKeepsReplicas cl a \<and> primaryWorkloadGet cl a s1 = Inr m \<and>
           liveReplicas cl a s' = Inr n \<and> app_Ensure cl x a config s = (t, None)
           \<longrightarrow> liveReplicas cl a t = Inr n)"
proof -
  have staged: "\<exists>b0 w. batch = b0 @ [OpApply w]
     \<and> workloadKind (OpApply w) = Some (deploymentType a)
     \<and> Name (resourceMeta w) = name a
     \<and> list_all (\<lambda>op. workloadKind op = None) b0
     \<and> (workloadReplicas w = Some 1 \<longleftrightarrow> (\<exists>e. primaryWorkloadGet cl a s1 = Inl e \<and> IsNotFound e))
     \<and> (workloadReplicas w = None \<longleftrightarrow> (\<exists>m. primaryWorkloadGet cl a s1 = Inr m))"
    by (rule Ensure_staged_replicas[OF kind sv ok])
  then obtain b0 w where b: "batch = b0 @ [OpApply w]"
    and k: "workloadKind (OpApply w) = Some (deploymentType a)"
    and nm: "Name (resourceMeta w) = name a"
    and b0: "list_all (\<lambda>op. workloadKind op = None) b0"
    and one: "workloadReplicas w = Some 1 \<longleftrightarrow> (\<exists>e. primaryWorkloadGet cl a s1 = Inl e \<and> IsNotFound e)"
    and nil: "workloadReplicas w = None \<longleftrightarrow> (\<exists>m. primaryWorkloadGet cl a s1 = Inr m)"
    by (elim exE conjE) (rule that)
  from stage_success_meta[OF ok] b have ns: "Namespace (resourceMeta w) = namespace a" by simp
  have run: "app_Ensure cl x a config s = applier_Run cl (b0 @ [OpApply w]) s'"
    using ok b by (simp add: app_Ensure_def)
  have keep: "\<forall>m n t. runKeepsReplicas cl a \<and> primaryWorkloadGet cl a s1 = Inr m \<and>
           liveReplicas cl a s' = Inr n \<and> app_Ensure cl x a config s = (t, None)
           \<longrightarrow> liveReplicas cl a t = Inr n"
  proof (intro allI impI, elim conjE)
    fix m n t
    assume rk: "runKeepsReplicas cl a" and m: "primaryWorkloadGet cl a s1 = Inr m"
      and live: "liveReplicas cl a s' = Inr n" and e: "app_Ensure cl x a config s = (t, None)"
    from m nil have "workloadReplicas w = None" by blast
    with rk[unfolded runKeepsReplicas_def, rule_format, of b0 w s' n t] b0 k nm ns live e run
    show "liveReplicas cl a t = Inr n" by simp
  qed
  show ?thesis
    using b k nm b0 one nil keep
    by (intro exI[of _ b0] exI[of _ w] conjI)
qed

theorem Ensure_initial_replicas_witness:
  "(\<exists>b0 w. fst (snd (app_Ensure_stage memClient ext0 (app0 DeploymentStateless)
        (config0 [filesystem0 ''data'' ''fast'']) freshCluster)) = b0 @ [OpApply w]
      \<and> workloadReplicas w = Some 1)
   \<and> (\<exists>b0 w. fst (snd (app_Ensure_stage memClient ext0 (app0 DeploymentStateless)
        (config0 [filesystem0 ''data'' ''fast'']) liveCluster)) = b0 @ [OpApply w]
      \<and> workloadReplicas w = None)
   \<and> liveReplicas memClient (app0 DeploymentStateless) liveCluster = Inr (Some 3)
   \<and> liveReplicas memClient (app0 DeploymentStateless)
        (fst (app_Ensure memClient ext0 (app0 DeploymentStateless)
           (config0 [filesystem0 ''data'' ''fast'']) liveCluster)) = Inr (Some 3)"
proof -
  let ?a = "app0 DeploymentStateless"
  let ?c = "config0 [filesystem0 ''data'' ''fast'']"
  have kind: "deploymentType ?a = DeploymentStateful \<or> deploymentType ?a = DeploymentStateless"
    by (simp add: app0_def)
  have nf: "IsNotFound (ErrNotFound ''%s %q'' [''deployment'', ''db''])" by simp
  note fresh0 = Ensure_initial_replicas[OF kind pair_of_snd_None[OF services_fresh]
      triple_of_snd_None[OF stage_fresh]]
  note live0 = Ensure_initial_replicas[OF kind pair_of_snd_None[OF services_live]
      triple_of_snd_None[OF stage_live]]
  from fresh0 obtain b0 w where
    b: "fst (snd (app_Ensure_stage memClient ext0 ?a ?c freshCluster)) = b0 @ [OpApply w]"
    and one: "workloadReplicas w = Some 1 \<longleftrightarrow>
      (\<exists>e. primaryWorkloadGet memClient ?a
         (fst (ensureServices memClient ext0 ?a ?c freshCluster)) = Inl e \<and> IsNotFound e)"
    by (elim exE conjE) (rule that)
  from one get_fresh[of "[filesystem0 ''data'' ''fast'']"] nf
  have "workloadReplicas w = Some 1" by simp
  with b have fresh: "\<exists>b0 w. fst (snd (app_Ensure_stage memClient ext0 ?a ?c freshCluster))
      = b0 @ [OpApply w] \<and> workloadReplicas w = Some 1"
    by blast
  from live0 obtain b1 w1 where
    b1: "fst (snd (app_Ensure_stage memClient ext0 ?a ?c liveCluster)) = b1 @ [OpApply w1]"
    and nil: "workloadReplicas w1 = None \<longleftrightarrow>
      (\<exists>m. primaryWorkloadGet memClient ?a
         (fst (ensureServices memClient ext0 ?a ?c liveCluster)) = Inr m)"
    by (elim exE conjE) (rule that)
  from nil get_live[of "[filesystem0 ''data'' ''fast'']"]
  have "workloadReplicas w1 = None" by simp
  with b1 have live: "\<exists>b0 w. fst (snd (app_Ensure_stage memClient ext0 ?a ?c liveCluster))
      = b0 @ [OpApply w] \<and> workloadReplicas w = None"
    by blast
  have before: "liveReplicas memClient ?a liveCluster = Inr (Some 3)"
    by (simp add: liveReplicas_def mem_simps liveCluster_def)
  have before': "liveReplicas memClient ?a
      (fst (app_Ensure_stage memClient ext0 ?a ?c liveCluster)) = Inr (Some 3)"
    by (simp add: ensure_eval liveReplicas_def liveCluster_def)
  have ar: "applier_Run memClient = memRun" by (simp add: memClient_def)
  have "snd (app_Ensure memClient ext0 ?a ?c liveCluster) = None"
    using stage_live
    by (auto simp: app_Ensure_def ar memRun_def split: prod.splits option.splits)
  then have run: "app_Ensure memClient ext0 ?a ?c liveCluster
      = (fst (app_Ensure memClient ext0 ?a ?c liveCluster), None)"
    by (rule pair_of_snd_None)
  from live0 have
    keep: "\<forall>m n t. runKeepsReplicas memClient ?a \<and>
           primaryWorkloadGet memClient ?a (fst (ensureServices memClient ext0 ?a ?c liveCluster))
             = Inr m \<and>
           liveReplicas memClient ?a (fst (app_Ensure_stage memClient ext0 ?a ?c liveCluster))
             = Inr n \<and>
           app_Ensure memClient ext0 ?a ?c liveCluster = (t, None)
           \<longrightarrow> liveReplicas memClient ?a t = Inr n"
    by (elim exE conjE) assumption
  from keep[rule_format, OF conjI[OF memClient_keeps_replicas
        conjI[OF get_live[of "[filesystem0 ''data'' ''fast'']"] conjI[OF before' run]]]]
  have after: "liveReplicas memClient ?a (fst (app_Ensure memClient ext0 ?a ?c liveCluster))
      = Inr (Some 3)" .
  from fresh live before after show ?thesis by (intro conjI)
qed




























lemma container_frame:
  "charmContainer x (config\<lparr>Filesystems := fss\<rparr>) = charmContainer x config"
  "initContainer x a (config\<lparr>Filesystems := fss\<rparr>) = initContainer x a config"
  by (simp_all add: charmContainer_def initContainer_def fun_eq_iff)

lemma config_frame:
  "app_annotations x a (config\<lparr>Filesystems := fss\<rparr>) = app_annotations x a config"
  "app_applicationPodSpec x a (config\<lparr>Filesystems := fss\<rparr>) = app_applicationPodSpec x a config"
  "ensureSecret x a (config\<lparr>Filesystems := fss\<rparr>) = ensureSecret x a config"
  "handleVolumeMount (config\<lparr>Filesystems := fss\<rparr>) = handleVolumeMount config"
  "workloadMeta x a (config\<lparr>Filesystems := fss\<rparr>) = workloadMeta x a config"
  "podTemplate x a (config\<lparr>Filesystems := fss\<rparr>) = podTemplate x a config"
  "statefulSetOf x a (config\<lparr>Filesystems := fss\<rparr>) = statefulSetOf x a config"
proof -
  show ann: "app_annotations x a (config\<lparr>Filesystems := fss\<rparr>) = app_annotations x a config"
    by (simp add: app_annotations_def)
  show "app_applicationPodSpec x a (config\<lparr>Filesystems := fss\<rparr>) = app_applicationPodSpec x a config"
    by (simp add: app_applicationPodSpec_def container_frame Let_def cong: sum.case_cong)
  show "ensureSecret x a (config\<lparr>Filesystems := fss\<rparr>) = ensureSecret x a config"
    by (simp add: ensureSecret_def ann)
  show "handleVolumeMount (config\<lparr>Filesystems := fss\<rparr>) = handleVolumeMount config"
    by (simp add: handleVolumeMount_def mountInContainer_def containerConfigOf_def fun_eq_iff)
  show wm: "workloadMeta x a (config\<lparr>Filesystems := fss\<rparr>) = workloadMeta x a config"
    by (simp add: workloadMeta_def ann fun_eq_iff)
  show pt: "podTemplate x a (config\<lparr>Filesystems := fss\<rparr>) = podTemplate x a config"
    by (simp add: podTemplate_def ann fun_eq_iff)
  show "statefulSetOf x a (config\<lparr>Filesystems := fss\<rparr>) = statefulSetOf x a config"
    by (simp add: statefulSetOf_def wm pt fun_eq_iff)
qed

lemma configureStorage_duplicate:
  assumes "\<not> distinct (map StorageName (Filesystems config))"
  shows "snd (configureStorage x a config scs uid hPVC l) \<noteq> None"
proof -
  have "snd (configureStorageLoop x a uid (Some (handleVolume x)) (handleVolumeMount config)
      (Some hPVC) (Some handleStorageClass) 0 (Filesystems config) {} (storageClassMapOf scs) l)
      \<noteq> None"
    by (rule configureStorageLoop_duplicate) (simp add: assms)
  then show ?thesis
    by (auto simp: configureStorage_def app_configureStorage_def split: prod.splits option.splits)
qed

lemma configureStorage_notValid:
  assumes pre: "configureStorage x a (config\<lparr>Filesystems := pre\<rparr>) scs uid hPVC l = (l1, None)"
    and dup: "StorageName f \<in> set (map StorageName pre)"
  shows "configureStorage x a (config\<lparr>Filesystems := pre @ f # rest\<rparr>) scs uid hPVC l
       = (l1, Some (ErrNotValid ''duplicated storage name %q for %q'' [StorageName f, name a]))"
proof -
  from pre have "configureStorageLoop x a uid (Some (handleVolume x)) (handleVolumeMount config)
      (Some hPVC) (Some handleStorageClass) 0 pre {} (storageClassMapOf scs) l = (l1, None)"
    by (auto simp: configureStorage_def app_configureStorage_def config_frame
        split: prod.splits option.splits)
  from configureStorageLoop_notValid[OF this dup, of rest] show ?thesis
    by (simp add: configureStorage_def app_configureStorage_def config_frame Trace_def)
qed

lemma stage_never_succeeds:
  assumes dup: "\<not> distinct (map StorageName (Filesystems config))"
  shows "snd (snd (app_Ensure_stage cl x a config s)) \<noteq> None"
proof
  assume "snd (snd (app_Ensure_stage cl x a config s)) = None"
  then obtain s' b where ok: "app_Ensure_stage cl x a config s = (s', b, None)"
    by (cases "app_Ensure_stage cl x a config s") auto
  let ?ap = "[OpApply (ResSecret (ensureSecret x a config))]"
  from stage_success[OF ok] obtain s0 ps scs where
    br: "(case deploymentType a of
          DeploymentStateful \<Rightarrow> ensureStateful cl x a config scs ps ?ap s0
        | DeploymentStateless \<Rightarrow> ensureStateless cl x a config scs ps ?ap s0
        | DeploymentDaemon \<Rightarrow> ensureDaemon cl x a config scs ps ?ap s0
        | DeploymentOther v \<Rightarrow> (s0, [], Some (ErrNotSupported ''unknown deployment type'' [])))
        = (s', b, None)"
    by blast
  show False
  proof (cases "deploymentType a")
    case DeploymentStateful
    with br have "ensureStateful cl x a config scs ps ?ap s0 = (s', b, None)" by simp
    from ensureStateful_success[OF this] obtain exists uid l where
      "configureStorage x a config scs uid (handlePVCForStatefulSet x)
         \<lparr>staged = ?ap, podSpec = ps, statefulset = statefulSetOf x a config ps exists uid\<rparr>
         = (l, None)"
      by blast
    with configureStorage_duplicate[OF dup, of x a scs uid "handlePVCForStatefulSet x"
        "\<lparr>staged = ?ap, podSpec = ps, statefulset = statefulSetOf x a config ps exists uid\<rparr>"]
    show False by simp
  next
    case DeploymentStateless
    with br have "ensureStateless cl x a config scs ps ?ap s0 = (s', b, None)" by simp
    from ensureStateless_success[OF this] obtain uid l where
      "configureStorage x a config scs uid (handlePVCForStatelessResource x a)
         \<lparr>staged = ?ap, podSpec = ps, statefulset = StatefulSet0\<rparr> = (l, None)"
      by blast
    with configureStorage_duplicate[OF dup, of x a scs uid "handlePVCForStatelessResource x a"
        "\<lparr>staged = ?ap, podSpec = ps, statefulset = StatefulSet0\<rparr>"]
    show False by simp
  next
    case DeploymentDaemon
    with br have "ensureDaemon cl x a config scs ps ?ap s0 = (s', b, None)" by simp
    from ensureDaemon_success[OF this] obtain uid l where
      "configureStorage x a config scs uid (handlePVCForStatelessResource x a)
         \<lparr>staged = ?ap, podSpec = ps, statefulset = StatefulSet0\<rparr> = (l, None)"
      by blast
    with configureStorage_duplicate[OF dup, of x a scs uid "handlePVCForStatelessResource x a"
        "\<lparr>staged = ?ap, podSpec = ps, statefulset = StatefulSet0\<rparr>"]
    show False by simp
  next
    case (DeploymentOther v)
    with br show False by simp
  qed
qed

lemma stage_starts_with_secret:
  "\<exists>rest. fst (snd (app_Ensure_stage cl x a config s))
     = OpApply (ResSecret (ensureSecret x a config)) # rest"
proof -
  let ?ap = "[OpApply (ResSecret (ensureSecret x a config))]"
  have cs: "\<And>scs uid hPVC ps ss l r.
      configureStorage x a config scs uid hPVC \<lparr>staged = ?ap, podSpec = ps, statefulset = ss\<rparr>
         = (l, r) \<Longrightarrow>
      hPVC = handlePVCForStatefulSet x \<or> hPVC = handlePVCForStatelessResource x a \<Longrightarrow>
      \<exists>rest. staged l = OpApply (ResSecret (ensureSecret x a config)) # rest"
    using configureStorage_batch by blast
  show ?thesis
    by (auto simp: app_Ensure_stage_def ensureStateful_def ensureStateless_def ensureDaemon_def
        Let_def applier_Apply_def
        split: sum.splits prod.splits option.splits DeploymentType.splits dest!: cs)
qed

lemma stage_notValid:
  assumes ok: "app_Ensure_stage cl x a (config\<lparr>Filesystems := pre\<rparr>) s = (s', b, None)"
    and dup: "StorageName f \<in> set (map StorageName pre)"
  shows "app_Ensure_stage cl x a (config\<lparr>Filesystems := pre @ f # rest\<rparr>) s
       = (s', butlast b,
          Some (ErrNotValid ''duplicated storage name %q for %q'' [StorageName f, name a]))"
proof -
  let ?c1 = "config\<lparr>Filesystems := pre\<rparr>"
  let ?c2 = "config\<lparr>Filesystems := pre @ f # rest\<rparr>"
  let ?ap = "[OpApply (ResSecret (ensureSecret x a config))]"
  let ?err = "ErrNotValid ''duplicated storage name %q for %q'' [StorageName f, name a]"
  from stage_success[OF ok] have "\<exists>s0 ps scs.
      app_configureDefaultService cl x a (app_annotations x a config) s = (s0, None)
    \<and> app_applicationPodSpec x a config = Inr ps
    \<and> ListStorageClass cl s0 = Inr scs
    \<and> (case deploymentType a of
          DeploymentStateful \<Rightarrow> ensureStateful cl x a ?c1 scs ps ?ap s0
        | DeploymentStateless \<Rightarrow> ensureStateless cl x a ?c1 scs ps ?ap s0
        | DeploymentDaemon \<Rightarrow> ensureDaemon cl x a ?c1 scs ps ?ap s0
        | DeploymentOther v \<Rightarrow> (s0, [], Some (ErrNotSupported ''unknown deployment type'' [])))
        = (s', b, None)"
    by (simp add: config_frame cong: DeploymentType.case_cong)
  then obtain s0 ps scs where
    ds: "app_configureDefaultService cl x a (app_annotations x a config) s = (s0, None)"
    and ps: "app_applicationPodSpec x a config = Inr ps"
    and scs: "ListStorageClass cl s0 = Inr scs"
    and br: "(case deploymentType a of
          DeploymentStateful \<Rightarrow> ensureStateful cl x a ?c1 scs ps ?ap s0
        | DeploymentStateless \<Rightarrow> ensureStateless cl x a ?c1 scs ps ?ap s0
        | DeploymentDaemon \<Rightarrow> ensureDaemon cl x a ?c1 scs ps ?ap s0
        | DeploymentOther v \<Rightarrow> (s0, [], Some (ErrNotSupported ''unknown deployment type'' [])))
        = (s', b, None)"
    by (elim exE conjE) (rule that)
  have stage2: "app_Ensure_stage cl x a ?c2 s =
      (case deploymentType a of
          DeploymentStateful \<Rightarrow> ensureStateful cl x a ?c2 scs ps ?ap s0
        | DeploymentStateless \<Rightarrow> ensureStateless cl x a ?c2 scs ps ?ap s0
        | DeploymentDaemon \<Rightarrow> ensureDaemon cl x a ?c2 scs ps ?ap s0
        | DeploymentOther v \<Rightarrow> (s0, ?ap, Some (ErrNotSupported ''unknown deployment type'' [])))"
    by (simp add: app_Ensure_stage_def config_frame ds ps scs applier_Apply_def Let_def
        cong: DeploymentType.case_cong)
  show ?thesis
  proof (cases "deploymentType a")
    case DeploymentStateful
    with br have "ensureStateful cl x a ?c1 scs ps ?ap s0 = (s', b, None)" by simp
    from ensureStateful_success[OF this] obtain s1 exists uid l where
      hs: "app_configureHeadlessService cl x a (name a) (app_annotations x a ?c1) s0 = (s1, None)"
      and ex: "existsOf (StatefulSetGet cl (name a) (namespace a) s1) = Inr exists"
      and pf: "app_getStorageUniqPrefix cl x
         (\<lambda>w. map_sum id (\<lambda>d. Annotations (ssMeta d)) (StatefulSetGet cl (name a) (namespace a) s1)) s1
         = (s', Inr uid)"
      and cs: "configureStorage x a ?c1 scs uid (handlePVCForStatefulSet x)
         \<lparr>staged = ?ap, podSpec = ps, statefulset = statefulSetOf x a ?c1 ps exists uid\<rparr>
         = (l, None)"
      and b: "b = staged l @ [OpApply (ResStatefulSet
          ((statefulset l)\<lparr>ssSpec := (ssSpec (statefulset l))\<lparr>ssTemplate :=
             (ssTemplate (ssSpec (statefulset l)))\<lparr>tplSpec :=
               (tplSpec (ssTemplate (ssSpec (statefulset l))))
                 \<lparr>Containers := Containers (podSpec l)\<rparr>\<rparr>\<rparr>\<rparr>))]"
      by (elim exE conjE) (rule that)
    from configureStorage_notValid[OF cs dup, of rest]
    have cs2: "configureStorage x a ?c2 scs uid (handlePVCForStatefulSet x)
         \<lparr>staged = ?ap, podSpec = ps, statefulset = statefulSetOf x a config ps exists uid\<rparr>
         = (l, Some ?err)"
      by (simp add: config_frame)
    have "ensureStateful cl x a ?c2 scs ps ?ap s0 = (s', staged l, Some ?err)"
      using hs ex pf cs2
      by (simp add: ensureStateful_def config_frame Let_def Trace_def)
    with stage2 DeploymentStateful b show ?thesis by simp
  next
    case DeploymentStateless
    with br have "ensureStateless cl x a ?c1 scs ps ?ap s0 = (s', b, None)" by simp
    from ensureStateless_success[OF this] obtain exists uid l where
      ex: "existsOf (DeploymentGet cl (name a) (namespace a) s0) = Inr exists"
      and pf: "app_getStorageUniqPrefix cl x
         (\<lambda>w. map_sum id (\<lambda>d. Annotations (dMeta d)) (DeploymentGet cl (name a) (namespace a) s0)) s0
         = (s', Inr uid)"
      and cs: "configureStorage x a ?c1 scs uid (handlePVCForStatelessResource x a)
         \<lparr>staged = ?ap, podSpec = ps, statefulset = StatefulSet0\<rparr> = (l, None)"
      and b: "b = staged l @ [OpApply (ResDeployment
          \<lparr>dMeta = workloadMeta x a ?c1 uid,
           dSpec = \<lparr>dReplicas = numPodsOf exists, dSelector = app_selectorLabels x a,
             dTemplate = podTemplate x a ?c1 (podSpec l)\<rparr>\<rparr>)]"
      by (elim exE conjE) (rule that)
    from configureStorage_notValid[OF cs dup, of rest]
    have cs2: "configureStorage x a ?c2 scs uid (handlePVCForStatelessResource x a)
         \<lparr>staged = ?ap, podSpec = ps, statefulset = StatefulSet0\<rparr> = (l, Some ?err)"
      by simp
    have "ensureStateless cl x a ?c2 scs ps ?ap s0 = (s', staged l, Some ?err)"
      using ex pf cs2
      by (simp add: ensureStateless_def config_frame Let_def Trace_def)
    with stage2 DeploymentStateless b show ?thesis by simp
  next
    case DeploymentDaemon
    with br have "ensureDaemon cl x a ?c1 scs ps ?ap s0 = (s', b, None)" by simp
    from ensureDaemon_success[OF this] obtain uid l where
      pf: "app_getStorageUniqPrefix cl x
         (\<lambda>w. map_sum id (\<lambda>d. Annotations (dsMeta d)) (DaemonSetGet cl (name a) (namespace a) w)) s0
         = (s', Inr uid)"
      and cs: "configureStorage x a ?c1 scs uid (handlePVCForStatelessResource x a)
         \<lparr>staged = ?ap, podSpec = ps, statefulset = StatefulSet0\<rparr> = (l, None)"
      and b: "b = staged l @ [OpApply (ResDaemonSet
          \<lparr>dsMeta = workloadMeta x a ?c1 uid,
           dsSpec = \<lparr>dsSelector = app_selectorLabels x a,
             dsTemplate = podTemplate x a ?c1 (podSpec l)\<rparr>,
           DesiredNumberScheduled = 0\<rparr>)]"
      by (elim exE conjE) (rule that)
    from configureStorage_notValid[OF cs dup, of rest]
    have cs2: "configureStorage x a ?c2 scs uid (handlePVCForStatelessResource x a)
         \<lparr>staged = ?ap, podSpec = ps, statefulset = StatefulSet0\<rparr> = (l, Some ?err)"
      by simp
    have "ensureDaemon cl x a ?c2 scs ps ?ap s0 = (s', staged l, Some ?err)"
      using pf cs2
      by (simp add: ensureDaemon_def config_frame Let_def Trace_def)
    with stage2 DeploymentDaemon b show ?thesis by simp
  next
    case (DeploymentOther v)
    with br show ?thesis by simp
  qed
qed

text \<open>
  Claim C3, amended. With two filesystems of the same storage name \<open>Ensure\<close> always
  fails and never runs the mutation batch, so nothing staged is applied; the Secret is
  staged by then. When \<open>Ensure\<close> succeeds in staging the filesystems before the
  repeated name, the error is NotValid, and the batch at that point is the batch of those
  filesystems without the workload.
\<close>

theorem duplicate_storage_name_rejected:
  assumes dup: "\<not> distinct (map StorageName (Filesystems config))"
  shows "(\<exists>s1 staged err.
            app_Ensure_stage cl x a config s
              = (s1, OpApply (ResSecret (ensureSecret x a config)) # staged, Some err)
          \<and> app_Ensure cl x a config s = (s1, Some err))
       \<and> (\<forall>pre f rest s' b.
            Filesystems config = pre @ f # rest \<and> StorageName f \<in> set (map StorageName pre) \<and>
            app_Ensure_stage cl x a (config\<lparr>Filesystems := pre\<rparr>) s = (s', b, None)
            \<longrightarrow> app_Ensure_stage cl x a config s
                  = (s', butlast b,
                     Some (ErrNotValid ''duplicated storage name %q for %q''
                       [StorageName f, name a]))
              \<and> app_Ensure cl x a config s
                  = (s', Some (ErrNotValid ''duplicated storage name %q for %q''
                       [StorageName f, name a])))"
proof (intro conjI allI impI)
  obtain s1 batch r where st: "app_Ensure_stage cl x a config s = (s1, batch, r)"
    by (cases "app_Ensure_stage cl x a config s") auto
  with stage_never_succeeds[OF dup, of cl x a s] obtain err where r: "r = Some err" by auto
  from stage_starts_with_secret[of cl x a config s] st obtain rest where
    "batch = OpApply (ResSecret (ensureSecret x a config)) # rest" by auto
  with st r show "\<exists>s1 staged err.
            app_Ensure_stage cl x a config s
              = (s1, OpApply (ResSecret (ensureSecret x a config)) # staged, Some err)
          \<and> app_Ensure cl x a config s = (s1, Some err)"
    by (simp add: app_Ensure_def)
next
  fix pre f rest s' b
  assume h: "Filesystems config = pre @ f # rest \<and> StorageName f \<in> set (map StorageName pre) \<and>
            app_Ensure_stage cl x a (config\<lparr>Filesystems := pre\<rparr>) s = (s', b, None)"
  then have c: "config\<lparr>Filesystems := pre @ f # rest\<rparr> = config"
    by (metis ApplicationConfig.surjective ApplicationConfig.update_convs(9))
  from h stage_notValid[where cl=cl and x=x and a=a and config=config and pre=pre and s=s
      and s'=s' and b=b and f=f and rest=rest] c
  show st: "app_Ensure_stage cl x a config s
                  = (s', butlast b,
                     Some (ErrNotValid ''duplicated storage name %q for %q''
                       [StorageName f, name a]))"
    by simp
  then show "app_Ensure cl x a config s
                  = (s', Some (ErrNotValid ''duplicated storage name %q for %q''
                       [StorageName f, name a]))"
    by (simp add: app_Ensure_def)
qed

text \<open>
  The claim as stated fails: when the repeated name is detected, the Secret and the
  storage objects of the first filesystem are staged and the default Service is written
  to the cluster.
\<close>

theorem duplicate_storage_name_counterexample:
  "snd (snd (app_Ensure_stage memClient ext0 (app0 DeploymentStateless) duplicateConfig
       freshCluster))
     = Some (ErrNotValid ''duplicated storage name %q for %q'' [''data'', ''db''])
   \<and> hd (fst (snd (app_Ensure_stage memClient ext0 (app0 DeploymentStateless) duplicateConfig
       freshCluster)))
     = OpApply (ResSecret (ensureSecret ext0 (app0 DeploymentStateless) duplicateConfig))
   \<and> map isStorageOperation (fst (snd (app_Ensure_stage memClient ext0
       (app0 DeploymentStateless) duplicateConfig freshCluster)))
     = [False, True, True]
   \<and> memServices freshCluster (''ns'', ''db'') = None
   \<and> memServices (fst (app_Ensure_stage memClient ext0 (app0 DeploymentStateless)
       duplicateConfig freshCluster)) (''ns'', ''db'') \<noteq> None"
  by (simp add: ensure_eval freshCluster_def duplicateConfig_def)

theorem duplicate_storage_name_rejected_witness:
  "snd (app_Ensure memClient ext0 (app0 DeploymentStateless) duplicateConfig freshCluster)
     = Some (ErrNotValid ''duplicated storage name %q for %q'' [''data'', ''db''])"
proof -
  let ?a = "app0 DeploymentStateless"
  let ?fs = "filesystem0 ''data'' ''fast''"
  have dup: "\<not> distinct (map StorageName (Filesystems duplicateConfig))"
    by (simp add: duplicateConfig_def config0_def)
  have pre: "duplicateConfig\<lparr>Filesystems := [?fs]\<rparr> = config0 [?fs]"
    by (simp add: duplicateConfig_def config0_def)
  have h: "Filesystems duplicateConfig = [?fs] @ ?fs # [] \<and>
      StorageName ?fs \<in> set (map StorageName [?fs]) \<and>
      app_Ensure_stage memClient ext0 ?a (duplicateConfig\<lparr>Filesystems := [?fs]\<rparr>) freshCluster
        = (fst (app_Ensure_stage memClient ext0 ?a (config0 [?fs]) freshCluster),
           fst (snd (app_Ensure_stage memClient ext0 ?a (config0 [?fs]) freshCluster)), None)"
    using triple_of_snd_None[OF stage_fresh] by (simp add: pre) (simp add: duplicateConfig_def config0_def)
  have nm: "StorageName ?fs = ''data''" "name ?a = ''db''"
    by (simp_all add: filesystem0_def app0_def)
  from duplicate_storage_name_rejected[OF dup, of memClient ext0 ?a freshCluster] h nm
  show ?thesis
    by (metis snd_conv)
qed

end
